theory Spec2Isabelle
  imports Main "HOL-Library.Word" "HOL-Library.Sublist"
begin

unbundle bit_operations_syntax

section \<open>Errors and results\<close>

text \<open>
  \<^verbatim>\<open>virReportError\<close> records an error number and a message, and the reporting function
  then returns \<^verbatim>\<open>-1\<close> or \<^verbatim>\<open>NULL\<close>.  A failure is the pair of both; the message is the
  format string of the source, with its arguments left out.  \<open>VIR_ERR_OK\<close> stands for a
  \<^verbatim>\<open>NULL\<close> return on which no error was reported, \<open>VIR_ERR_FROM_CALLEE\<close> for a failure
  that a function outside \<^verbatim>\<open>bhyve_command.c\<close> reported itself.
\<close>

datatype virErrorNumber =
    VIR_ERR_OK
  | VIR_ERR_INTERNAL_ERROR
  | VIR_ERR_CONFIG_UNSUPPORTED
  | VIR_ERR_FROM_CALLEE

type_synonym virError = "virErrorNumber \<times> string"

section \<open>printf conversions\<close>

text \<open>The decimal digit for a number below ten.\<close>

definition digit_char :: "nat \<Rightarrow> char" where
  "digit_char n = ''0123456789'' ! (n mod 10)"

fun string_of_nat :: "nat \<Rightarrow> string" where
  "string_of_nat n =
     (if n < 10 then [digit_char n]
      else string_of_nat (n div 10) @ [digit_char (n mod 10)])"

declare string_of_nat.simps [simp del]

definition string_of_int :: "int \<Rightarrow> string" where
  "string_of_int i =
     (if i < 0 then CHR ''-'' # string_of_nat (nat (- i)) else string_of_nat (nat i))"

text \<open>\<^verbatim>\<open>%d\<close> given a 32-bit value prints it as a signed number, whatever its C type.\<close>

definition fmt_d :: "32 word \<Rightarrow> string" where
  "fmt_d w = string_of_int (sint w)"

definition fmt_llu :: "64 word \<Rightarrow> string" where
  "fmt_llu w = string_of_nat (unat w)"

text \<open>\<^verbatim>\<open>%s\<close> given \<^verbatim>\<open>NULL\<close> prints \<^verbatim>\<open>(null)\<close> in glib's printf.\<close>

definition fmt_s :: "string option \<Rightarrow> string" where
  "fmt_s s = (case s of None \<Rightarrow> ''(null)'' | Some t \<Rightarrow> t)"

section \<open>The configuration\<close>

text \<open>
  The structures of \<^verbatim>\<open>domain_conf.h\<close> as records, with the fields this file reads.  An
  enumeration keeps the enumerators the file names; \<open>..._OTHER\<close> stands for every other
  enumerator.  \<^verbatim>\<open>unsigned int\<close> is \<^typ>\<open>32 word\<close>, \<^verbatim>\<open>unsigned long long\<close> is
  \<^typ>\<open>64 word\<close>.  An \<^verbatim>\<open>int\<close> that is only compared and incremented below 3 is
  \<^typ>\<open>int\<close>.  A pointer that may be \<^verbatim>\<open>NULL\<close> is an \<open>option\<close>.
\<close>

datatype virDomainChrType =
    VIR_DOMAIN_CHR_TYPE_NMDM
  | VIR_DOMAIN_CHR_TYPE_OTHER

record virDomainChrDef =
  chr_source_type :: virDomainChrType
  chr_source_path :: "string option"
  chr_target_port :: int

datatype virDomainDiskBus =
    VIR_DOMAIN_DISK_BUS_SATA
  | VIR_DOMAIN_DISK_BUS_VIRTIO
  | VIR_DOMAIN_DISK_BUS_OTHER

datatype virDomainDiskDevice =
    VIR_DOMAIN_DISK_DEVICE_DISK
  | VIR_DOMAIN_DISK_DEVICE_CDROM
  | VIR_DOMAIN_DISK_DEVICE_OTHER

datatype virStorageType =
    VIR_STORAGE_TYPE_FILE
  | VIR_STORAGE_TYPE_VOLUME
  | VIR_STORAGE_TYPE_OTHER

text \<open>
  \<open>src_type\<close> is what \<^verbatim>\<open>virDomainDiskGetType\<close> returns for the disk and \<open>src_path\<close> what
  \<^verbatim>\<open>virDomainDiskGetSource\<close> returns.
\<close>

record virStorageSource =
  src_type :: virStorageType
  src_path :: "string option"

text \<open>
  \<open>disk_controller\<close> is \<^verbatim>\<open>info.addr.drive.controller\<close>, \<open>disk_slot\<close> is
  \<^verbatim>\<open>info.addr.pci.slot\<close>; the file reads the first of a SATA disk only and the second
  of a virtio disk only.
\<close>

record virDomainDiskDef =
  disk_bus :: virDomainDiskBus
  disk_device :: virDomainDiskDevice
  disk_src :: virStorageSource
  disk_controller :: "32 word"
  disk_slot :: "32 word"
  disk_bootIndex :: "32 word"

datatype virDomainControllerType =
    VIR_DOMAIN_CONTROLLER_TYPE_PCI
  | VIR_DOMAIN_CONTROLLER_TYPE_SATA
  | VIR_DOMAIN_CONTROLLER_TYPE_USB
  | VIR_DOMAIN_CONTROLLER_TYPE_ISA
  | VIR_DOMAIN_CONTROLLER_TYPE_OTHER

datatype virDomainControllerModelPCI =
    VIR_DOMAIN_CONTROLLER_MODEL_PCI_ROOT
  | VIR_DOMAIN_CONTROLLER_MODEL_PCI_OTHER

text \<open>
  \<open>ctl_idx\<close> holds the bits of the \<^verbatim>\<open>int idx\<close>: the comparison with the
  \<^verbatim>\<open>unsigned int\<close> controller number of a disk is made on 32-bit unsigned values.
\<close>

record virDomainControllerDef =
  ctl_type :: virDomainControllerType
  ctl_model :: virDomainControllerModelPCI
  ctl_idx :: "32 word"
  ctl_slot :: "32 word"
  ctl_function :: "32 word"

datatype virDomainInputBus =
    VIR_DOMAIN_INPUT_BUS_USB
  | VIR_DOMAIN_INPUT_BUS_OTHER

datatype virDomainInputType =
    VIR_DOMAIN_INPUT_TYPE_TABLET
  | VIR_DOMAIN_INPUT_TYPE_OTHER

record virDomainInputDef =
  input_bus :: virDomainInputBus
  input_type :: virDomainInputType

datatype virDomainNetModelType =
    VIR_DOMAIN_NET_MODEL_VIRTIO
  | VIR_DOMAIN_NET_MODEL_E1000
  | VIR_DOMAIN_NET_MODEL_OTHER

datatype virDomainNetType =
    VIR_DOMAIN_NET_TYPE_BRIDGE
  | VIR_DOMAIN_NET_TYPE_OTHER

text \<open>
  \<open>net_actualType\<close> is \<^verbatim>\<open>virDomainNetGetActualType(net)\<close>, \<open>net_brname\<close> is
  \<^verbatim>\<open>virDomainNetGetActualBridgeName(net)\<close>, and \<open>net_mac\<close> is the text that
  \<^verbatim>\<open>virMacAddrFormat\<close> writes for \<^verbatim>\<open>net->mac\<close>.
\<close>

record virDomainNetDef =
  net_model :: virDomainNetModelType
  net_actualType :: virDomainNetType
  net_brname :: "string option"
  net_ifname :: "string option"
  net_slot :: "32 word"
  net_mac :: string

datatype virDomainGraphicsType =
    VIR_DOMAIN_GRAPHICS_TYPE_VNC
  | VIR_DOMAIN_GRAPHICS_TYPE_OTHER

datatype virDomainGraphicsListenType =
    VIR_DOMAIN_GRAPHICS_LISTEN_TYPE_NONE
  | VIR_DOMAIN_GRAPHICS_LISTEN_TYPE_ADDRESS
  | VIR_DOMAIN_GRAPHICS_LISTEN_TYPE_NETWORK
  | VIR_DOMAIN_GRAPHICS_LISTEN_TYPE_SOCKET
  | VIR_DOMAIN_GRAPHICS_LISTEN_TYPE_LAST

record virDomainGraphicsListenDef =
  listen_type :: virDomainGraphicsListenType
  listen_address :: "string option"

record virDomainGraphicsDef =
  gfx_type :: virDomainGraphicsType
  gfx_listens :: "virDomainGraphicsListenDef list"
  vnc_autoport :: bool
  vnc_port :: int
  vnc_passwd :: "string option"

text \<open>
  \<open>video_vgaconf\<close> is \<^verbatim>\<open>NULL\<close> when \<^verbatim>\<open>video->driver\<close> is, and otherwise the text of
  \<^verbatim>\<open>virDomainVideoVGAConfTypeToString(video->driver->vgaconf)\<close>.
\<close>

record virDomainVideoDef =
  video_slot :: "32 word"
  video_function :: "32 word"
  video_res :: "(32 word \<times> 32 word) option"
  video_vgaconf :: "string option option"

datatype virDomainSoundModel =
    VIR_DOMAIN_SOUND_MODEL_ICH7
  | VIR_DOMAIN_SOUND_MODEL_OTHER

datatype virDomainAudioType =
    VIR_DOMAIN_AUDIO_TYPE_OSS
  | VIR_DOMAIN_AUDIO_TYPE_LAST

record virDomainAudioDef =
  audio_type :: virDomainAudioType
  audio_inputDev :: "string option"
  audio_outputDev :: "string option"

text \<open>
  \<open>sound_audio\<close> is what \<^verbatim>\<open>virDomainDefFindAudioForSound(def, sound)\<close> returns for the
  device: its paired audio backend, if it has one.
\<close>

record virDomainSoundDef =
  sound_model :: virDomainSoundModel
  sound_slot :: "32 word"
  sound_function :: "32 word"
  sound_audio :: "virDomainAudioDef option"

record virCPUDef =
  cpu_sockets :: "32 word"
  cpu_dies :: "32 word"
  cpu_cores :: "32 word"
  cpu_threads :: "32 word"

datatype virTristateSwitch =
    VIR_TRISTATE_SWITCH_ABSENT
  | VIR_TRISTATE_SWITCH_ON
  | VIR_TRISTATE_SWITCH_OFF

datatype virDomainMsrsUnknown =
    VIR_DOMAIN_MSRS_UNKNOWN_IGNORE
  | VIR_DOMAIN_MSRS_UNKNOWN_FAULT

datatype virDomainClockOffsetType =
    VIR_DOMAIN_CLOCK_OFFSET_UTC
  | VIR_DOMAIN_CLOCK_OFFSET_LOCALTIME
  | VIR_DOMAIN_CLOCK_OFFSET_VARIABLE
  | VIR_DOMAIN_CLOCK_OFFSET_TIMEZONE

datatype virDomainBootOrder =
    VIR_DOMAIN_BOOT_FLOPPY
  | VIR_DOMAIN_BOOT_CDROM
  | VIR_DOMAIN_BOOT_DISK
  | VIR_DOMAIN_BOOT_NET

text \<open>
  \<open>def_vcpus\<close> is \<^verbatim>\<open>virDomainDefGetVcpus(def)\<close>, \<open>def_memory\<close> is
  \<^verbatim>\<open>virDomainDefGetMemoryInitial(def)\<close>, \<open>os_loader\<close> is \<^verbatim>\<open>NULL\<close> when
  \<^verbatim>\<open>def->os.loader\<close> is and otherwise its \<^verbatim>\<open>path\<close>, and \<open>def_namespaceData\<close> is the
  argument vector of the command-line pass-through.
\<close>

record virDomainDef =
  def_name :: string
  def_vcpus :: "32 word"
  def_cpu :: "virCPUDef option"
  def_memory :: "64 word"
  def_mem_locked :: bool
  feature_acpi :: virTristateSwitch
  feature_apic :: virTristateSwitch
  feature_msrs :: virTristateSwitch
  msrs_unknown :: virDomainMsrsUnknown
  clock_offset :: virDomainClockOffsetType
  os_bootloader :: "string option"
  os_bootloaderArgs :: "string option"
  os_loader :: "string option option"
  os_bootDevs :: "virDomainBootOrder list"
  def_controllers :: "virDomainControllerDef list"
  def_inputs :: "virDomainInputDef list"
  def_nets :: "virDomainNetDef list"
  def_disks :: "virDomainDiskDef list"
  def_graphics :: "virDomainGraphicsDef list"
  def_videos :: "virDomainVideoDef list"
  def_sounds :: "virDomainSoundDef list"
  def_serials :: "virDomainChrDef list"
  def_namespaceData :: "string list option"

section \<open>The driver and its collaborators\<close>

text \<open>
  Modelled from the spec: the capability bitset is a fixed set of named boolean flags.
  The header \<^verbatim>\<open>bhyve_capabilities.h\<close>, which is not among the sources, gives each flag
  one bit; the properties below use only that a flag is set or not.
\<close>

definition BHYVE_CAP_RTC_UTC :: "32 word" where "BHYVE_CAP_RTC_UTC = 1"
definition BHYVE_CAP_AHCI32SLOT :: "32 word" where "BHYVE_CAP_AHCI32SLOT = 2"
definition BHYVE_CAP_NET_E1000 :: "32 word" where "BHYVE_CAP_NET_E1000 = 4"
definition BHYVE_CAP_LPC_BOOTROM :: "32 word" where "BHYVE_CAP_LPC_BOOTROM = 8"
definition BHYVE_CAP_FBUF :: "32 word" where "BHYVE_CAP_FBUF = 16"
definition BHYVE_CAP_XHCI :: "32 word" where "BHYVE_CAP_XHCI = 32"
definition BHYVE_CAP_CPUTOPOLOGY :: "32 word" where "BHYVE_CAP_CPUTOPOLOGY = 64"
definition BHYVE_CAP_SOUND_HDA :: "32 word" where "BHYVE_CAP_SOUND_HDA = 128"
definition BHYVE_GRUB_CAP_CONSDEV :: "32 word" where "BHYVE_GRUB_CAP_CONSDEV = 1"

text \<open>
  \<open>bhyvecaps\<close> is \<^verbatim>\<open>bhyveDriverGetBhyveCaps(driver)\<close> and \<open>grubcaps\<close> is
  \<^verbatim>\<open>bhyveDriverGetGrubCaps(driver)\<close>.
\<close>

record bhyveConn =
  bhyvecaps :: "32 word"
  grubcaps :: "32 word"

text \<open>The test \<^verbatim>\<open>(caps & FLAG) != 0\<close>.\<close>

definition has_cap :: "32 word \<Rightarrow> 32 word \<Rightarrow> bool" where
  "has_cap caps flag = (caps AND flag \<noteq> 0)"

text \<open>
  Library functions the file calls and does not define, taken as parameters.
  \<^verbatim>\<open>virDomainDiskTranslateSourcePool\<close> rewrites the source of a disk in place and may
  fail: it maps the source to the rewritten one, \<open>None\<close> on failure.
  \<^verbatim>\<open>virStringSplit(string, delim, 0)\<close> maps the string and the delimiter to the tokens.
\<close>

record library =
  virDomainDiskTranslateSourcePool :: "virStorageSource \<Rightarrow> virStorageSource option"
  virStringSplit :: "string \<Rightarrow> string \<Rightarrow> string list"

text \<open>
  The host services with effects, taken as parameters: tap devices and the port
  allocator.  Every call is recorded, in order, and what a service answers may depend
  on all the calls made before it.  \<^verbatim>\<open>virNetDevTapCreateInBridgePort\<close> takes the bridge and the name or name
  pattern of the interface and answers the name of the interface it created;
  \<^verbatim>\<open>virNetDevTapGetRealDeviceName\<close> answers the real name; \<open>None\<close> is a failure, and so
  is \<open>False\<close> for the other services.  \<open>tap_prefix\<close> is the macro
  \<^verbatim>\<open>VIR_NET_GENERATED_TAP_PREFIX\<close>.
\<close>

datatype host_call =
    TapCreateInBridgePort "string option" string
  | TapGetRealDeviceName string
  | NetDevSetOnline string
  | PortAllocatorAcquire
  | PortAllocatorSetUsed "16 word"

record host =
  tap_prefix :: string
  virNetDevTapCreateInBridgePort ::
    "host_call list \<Rightarrow> string option \<Rightarrow> string \<Rightarrow> string option"
  virNetDevTapGetRealDeviceName :: "host_call list \<Rightarrow> string \<Rightarrow> string option"
  virNetDevSetOnline :: "host_call list \<Rightarrow> string \<Rightarrow> bool"
  virPortAllocatorAcquire :: "host_call list \<Rightarrow> 16 word option"
  virPortAllocatorSetUsed :: "host_call list \<Rightarrow> 16 word \<Rightarrow> bool"

text \<open>
  A built command: the executable and the arguments in order.  The paths \<^verbatim>\<open>BHYVE\<close>,
  \<^verbatim>\<open>BHYVELOAD\<close> and \<^verbatim>\<open>BHYVECTL\<close> are fixed when libvirt is configured.
\<close>

datatype binary = BHYVE | BHYVELOAD | BHYVECTL | Path string

record virCommand =
  cmd_binary :: binary
  cmd_args :: "string list"
  cmd_has_error :: bool

text \<open>
  Modelled from the spec: a built command is an executable path plus its ordered argument
  list.  \<^verbatim>\<open>virCommandNew\<close> and \<^verbatim>\<open>virCommandAddArg\<close> belong to \<^verbatim>\<open>vircommand.c\<close>, which is
  not among the sources: the first starts a command with no argument, the second
  appends one argument.  Given \<^verbatim>\<open>NULL\<close>, of which the spec says nothing,
  \<^verbatim>\<open>virCommandAddArg\<close> marks the command as failed instead, and a failed command takes
  no further argument; no command of the properties below meets that case.
\<close>

definition virCommandNew :: "binary \<Rightarrow> virCommand" where
  "virCommandNew b = \<lparr>cmd_binary = b, cmd_args = [], cmd_has_error = False\<rparr>"

definition virCommandAddArg :: "virCommand \<Rightarrow> string option \<Rightarrow> virCommand" where
  "virCommandAddArg cmd val =
     (if cmd_has_error cmd then cmd
      else case val of
             None \<Rightarrow> cmd\<lparr>cmd_has_error := True\<rparr>
           | Some v \<Rightarrow> cmd\<lparr>cmd_args := cmd_args cmd @ [v]\<rparr>)"

definition virCommandAddArgs :: "virCommand \<Rightarrow> string list \<Rightarrow> virCommand" where
  "virCommandAddArgs cmd vals = fold (\<lambda>v c. virCommandAddArg c (Some v)) vals cmd"

section \<open>Per-device formatters\<close>

text \<open>
  A formatter appends arguments to the command and returns \<^verbatim>\<open>0\<close>, or reports an error
  and returns \<^verbatim>\<open>-1\<close>; on \<^verbatim>\<open>-1\<close> the caller frees the command.  The model returns the
  arguments appended, or the error.  A formatter that writes to the configuration or
  calls a host service returns the new configuration part and call record as well.
\<close>

subsection \<open>\<^verbatim>\<open>bhyveBuildNetArgStr\<close>, lines 42-131\<close>

definition nic_model :: "bhyveConn \<Rightarrow> virDomainNetDef \<Rightarrow> virError + string" where
  "nic_model driver net =
     (if net_model net = VIR_DOMAIN_NET_MODEL_VIRTIO then Inr ''virtio-net''
      else if net_model net = VIR_DOMAIN_NET_MODEL_E1000 then
        (if has_cap (bhyvecaps driver) BHYVE_CAP_NET_E1000 then Inr ''e1000''
         else Inl (VIR_ERR_CONFIG_UNSUPPORTED,
                   ''NIC model 'e1000' is not supported by given bhyve binary''))
      else Inl (VIR_ERR_CONFIG_UNSUPPORTED, ''NIC model is not supported''))"

text \<open>Lines 82-87: a missing, generated or pattern name is replaced by the pattern.\<close>

definition net_ifname_template :: "host \<Rightarrow> virDomainNetDef \<Rightarrow> string" where
  "net_ifname_template H net =
     (case net_ifname net of
        None \<Rightarrow> tap_prefix H @ ''%d''
      | Some n \<Rightarrow>
          if prefix (tap_prefix H) n \<or> CHR ''%'' \<in> set n then tap_prefix H @ ''%d'' else n)"

definition net_arg :: "virDomainNetDef \<Rightarrow> string \<Rightarrow> string \<Rightarrow> string list" where
  "net_arg net model realifname =
     [''-s'', fmt_d (net_slot net) @ '':0,'' @ model @ '','' @ realifname @ '',mac='' @ net_mac net]"

definition bhyveBuildNetArgStr ::
  "host \<Rightarrow> bhyveConn \<Rightarrow> bool \<Rightarrow> virDomainNetDef \<Rightarrow> host_call list \<Rightarrow>
   (virError + string list) \<times> virDomainNetDef \<times> host_call list" where
  "bhyveBuildNetArgStr H driver dryRun net log =
     (case nic_model driver net of
        Inl e \<Rightarrow> (Inl e, net, log)
      | Inr model \<Rightarrow>
          if net_actualType net \<noteq> VIR_DOMAIN_NET_TYPE_BRIDGE then
            (Inl (VIR_ERR_CONFIG_UNSUPPORTED, ''Network type %d is not supported''),
             net\<lparr>net_ifname := None\<rparr>, log)
          else
            let ifname = net_ifname_template H net in
            if \<not> dryRun then
              (let log1 = log @ [TapCreateInBridgePort (net_brname net) ifname] in
               case virNetDevTapCreateInBridgePort H log (net_brname net) ifname of
                 None \<Rightarrow> (Inl (VIR_ERR_FROM_CALLEE, []), net\<lparr>net_ifname := None\<rparr>, log1)
               | Some created \<Rightarrow>
                   (let log2 = log1 @ [TapGetRealDeviceName created] in
                    case virNetDevTapGetRealDeviceName H log1 created of
                      None \<Rightarrow> (Inl (VIR_ERR_FROM_CALLEE, []), net\<lparr>net_ifname := None\<rparr>, log2)
                    | Some realifname \<Rightarrow>
                        (let log3 = log2 @ [NetDevSetOnline created] in
                         if \<not> virNetDevSetOnline H log2 created then
                           (Inl (VIR_ERR_FROM_CALLEE, []), net\<lparr>net_ifname := None\<rparr>, log3)
                         else
                           (Inr (net_arg net model realifname),
                            net\<lparr>net_ifname := Some created\<rparr>, log3))))
            else
              (Inr (net_arg net model ''tap0''), net\<lparr>net_ifname := Some ifname\<rparr>, log))"

subsection \<open>\<^verbatim>\<open>bhyveBuildConsoleArgStr\<close>, lines 133-161\<close>

definition bhyveBuildConsoleArgStr :: "virDomainDef \<Rightarrow> virError + string list" where
  "bhyveBuildConsoleArgStr def =
     (case def_serials def of
        [] \<Rightarrow> Inr []
      | chr # _ \<Rightarrow>
          if chr_source_type chr \<noteq> VIR_DOMAIN_CHR_TYPE_NMDM then
            Inl (VIR_ERR_CONFIG_UNSUPPORTED, ''only nmdm console types are supported'')
          else if chr_target_port chr > 2 then
            Inl (VIR_ERR_CONFIG_UNSUPPORTED, ''only two serial ports are supported'')
          else
            Inr [''-l'',
                 ''com'' @ string_of_int (chr_target_port chr + 1) @ '','' @
                   fmt_s (chr_source_path chr)])"

subsection \<open>\<^verbatim>\<open>bhyveBuildAHCIControllerArgStr\<close>, lines 163-232\<close>

text \<open>
  The loop over \<^verbatim>\<open>def->disks\<close>.  It returns the text gathered in \<^verbatim>\<open>buf\<close> for the disks
  it is given, or the first error, and the disks as the translation left them.
\<close>

fun ahci_disks ::
  "library \<Rightarrow> bhyveConn \<Rightarrow> virDomainControllerDef \<Rightarrow> virDomainDiskDef list \<Rightarrow>
   (virError + string) \<times> virDomainDiskDef list" where
  "ahci_disks L driver controller [] = (Inr [], [])"
| "ahci_disks L driver controller (disk # rest) =
     (if disk_bus disk \<noteq> VIR_DOMAIN_DISK_BUS_SATA then
        (case ahci_disks L driver controller rest of (r, rest') \<Rightarrow> (r, disk # rest'))
      else if disk_controller disk \<noteq> ctl_idx controller then
        (case ahci_disks L driver controller rest of (r, rest') \<Rightarrow> (r, disk # rest'))
      else if src_type (disk_src disk) \<noteq> VIR_STORAGE_TYPE_FILE \<and>
              src_type (disk_src disk) \<noteq> VIR_STORAGE_TYPE_VOLUME then
        (Inl (VIR_ERR_CONFIG_UNSUPPORTED, ''unsupported disk type''), disk # rest)
      else
        (case virDomainDiskTranslateSourcePool L (disk_src disk) of
           None \<Rightarrow> (Inl (VIR_ERR_FROM_CALLEE, []), disk # rest)
         | Some src \<Rightarrow>
             let disk' = disk\<lparr>disk_src := src\<rparr>; disk_source = src_path src in
             if disk_device disk' = VIR_DOMAIN_DISK_DEVICE_CDROM \<and> disk_source = None then
               (Inl (VIR_ERR_CONFIG_UNSUPPORTED,
                     ''cdrom device without source path not supported''), disk' # rest)
             else
               (case disk_device disk' of
                  VIR_DOMAIN_DISK_DEVICE_DISK \<Rightarrow>
                    (let device =
                       (if has_cap (bhyvecaps driver) BHYVE_CAP_AHCI32SLOT
                        then '',hd:'' @ fmt_s disk_source else ''-hd,'' @ fmt_s disk_source)
                     in case ahci_disks L driver controller rest of
                          (Inl e, rest') \<Rightarrow> (Inl e, disk' # rest')
                        | (Inr buf, rest') \<Rightarrow> (Inr (device @ buf), disk' # rest'))
                | VIR_DOMAIN_DISK_DEVICE_CDROM \<Rightarrow>
                    (let device =
                       (if has_cap (bhyvecaps driver) BHYVE_CAP_AHCI32SLOT
                        then '',cd:'' @ fmt_s disk_source else ''-cd,'' @ fmt_s disk_source)
                     in case ahci_disks L driver controller rest of
                          (Inl e, rest') \<Rightarrow> (Inl e, disk' # rest')
                        | (Inr buf, rest') \<Rightarrow> (Inr (device @ buf), disk' # rest'))
                | VIR_DOMAIN_DISK_DEVICE_OTHER \<Rightarrow>
                    (Inl (VIR_ERR_CONFIG_UNSUPPORTED, ''unsupported disk device''),
                     disk' # rest))))"

definition bhyveBuildAHCIControllerArgStr ::
  "library \<Rightarrow> bhyveConn \<Rightarrow> virDomainControllerDef \<Rightarrow> virDomainDiskDef list \<Rightarrow>
   (virError + string list) \<times> virDomainDiskDef list" where
  "bhyveBuildAHCIControllerArgStr L driver controller disks =
     (case ahci_disks L driver controller disks of
        (Inl e, disks') \<Rightarrow> (Inl e, disks')
      | (Inr buf, disks') \<Rightarrow>
          (Inr [''-s'', fmt_d (ctl_slot controller) @ '':0,ahci'' @ buf], disks'))"

subsection \<open>\<^verbatim>\<open>bhyveBuildUSBControllerArgStr\<close>, lines 234-271\<close>

text \<open>The loop over \<^verbatim>\<open>def->inputs\<close>: the first error, or the count \<^verbatim>\<open>ndevices\<close>.\<close>

fun usb_inputs :: "virDomainInputDef list \<Rightarrow> virError + nat" where
  "usb_inputs [] = Inr 0"
| "usb_inputs (input # rest) =
     (if input_bus input \<noteq> VIR_DOMAIN_INPUT_BUS_USB then
        Inl (VIR_ERR_CONFIG_UNSUPPORTED, ''only USB input devices are supported'')
      else if input_type input \<noteq> VIR_DOMAIN_INPUT_TYPE_TABLET then
        Inl (VIR_ERR_CONFIG_UNSUPPORTED, ''only tablet input devices are supported'')
      else (case usb_inputs rest of Inl e \<Rightarrow> Inl e | Inr n \<Rightarrow> Inr (Suc n)))"

definition bhyveBuildUSBControllerArgStr ::
  "virDomainDef \<Rightarrow> virDomainControllerDef \<Rightarrow> virError + string list" where
  "bhyveBuildUSBControllerArgStr def controller =
     (case usb_inputs (def_inputs def) of
        Inl e \<Rightarrow> Inl e
      | Inr ndevices \<Rightarrow>
          if ndevices \<noteq> 1 then
            Inl (VIR_ERR_CONFIG_UNSUPPORTED, ''only single input device is supported'')
          else
            Inr [''-s'',
                 fmt_d (ctl_slot controller) @ '':'' @ fmt_d (ctl_function controller) @
                   '',xhci,tablet''])"

subsection \<open>\<^verbatim>\<open>bhyveBuildVirtIODiskArgStr\<close> and \<^verbatim>\<open>bhyveBuildDiskArgStr\<close>, lines 273-325\<close>

definition bhyveBuildVirtIODiskArgStr ::
  "library \<Rightarrow> virDomainDiskDef \<Rightarrow> (virError + string list) \<times> virDomainDiskDef" where
  "bhyveBuildVirtIODiskArgStr L disk =
     (case virDomainDiskTranslateSourcePool L (disk_src disk) of
        None \<Rightarrow> (Inl (VIR_ERR_FROM_CALLEE, []), disk)
      | Some src \<Rightarrow>
          let disk' = disk\<lparr>disk_src := src\<rparr> in
          if disk_device disk' \<noteq> VIR_DOMAIN_DISK_DEVICE_DISK then
            (Inl (VIR_ERR_CONFIG_UNSUPPORTED, ''unsupported disk device''), disk')
          else if src_type src \<noteq> VIR_STORAGE_TYPE_FILE \<and>
                  src_type src \<noteq> VIR_STORAGE_TYPE_VOLUME then
            (Inl (VIR_ERR_CONFIG_UNSUPPORTED, ''unsupported disk type''), disk')
          else
            (Inr [''-s'', fmt_d (disk_slot disk') @ '':0,virtio-blk,'' @ fmt_s (src_path src)],
             disk'))"

definition bhyveBuildDiskArgStr ::
  "library \<Rightarrow> virDomainDiskDef \<Rightarrow> (virError + string list) \<times> virDomainDiskDef" where
  "bhyveBuildDiskArgStr L disk =
     (case disk_bus disk of
        VIR_DOMAIN_DISK_BUS_SATA \<Rightarrow> (Inr [], disk)
      | VIR_DOMAIN_DISK_BUS_VIRTIO \<Rightarrow> bhyveBuildVirtIODiskArgStr L disk
      | VIR_DOMAIN_DISK_BUS_OTHER \<Rightarrow>
          (Inl (VIR_ERR_CONFIG_UNSUPPORTED, ''unsupported disk device''), disk))"

subsection \<open>\<^verbatim>\<open>bhyveBuildControllerArgStr\<close>, lines 327-370\<close>

text \<open>
  The two counters are passed by reference and incremented before they are tested;
  the disks are those of the configuration, which the AHCI formatter may rewrite.
\<close>

definition bhyveBuildControllerArgStr ::
  "library \<Rightarrow> bhyveConn \<Rightarrow> virDomainDef \<Rightarrow> virDomainControllerDef \<Rightarrow> nat \<times> nat \<Rightarrow>
   virDomainDiskDef list \<Rightarrow> (virError + string list) \<times> (nat \<times> nat) \<times> virDomainDiskDef list"
  where
  "bhyveBuildControllerArgStr L driver def controller counters disks =
     (case counters of (nusbcontrollers, nisacontrollers) \<Rightarrow>
      (case ctl_type controller of
         VIR_DOMAIN_CONTROLLER_TYPE_PCI \<Rightarrow>
           if ctl_model controller \<noteq> VIR_DOMAIN_CONTROLLER_MODEL_PCI_ROOT then
             (Inl (VIR_ERR_CONFIG_UNSUPPORTED,
                   ''unsupported PCI controller model: only PCI root supported''),
              counters, disks)
           else (Inr [], counters, disks)
       | VIR_DOMAIN_CONTROLLER_TYPE_SATA \<Rightarrow>
           (case bhyveBuildAHCIControllerArgStr L driver controller disks of
              (r, disks') \<Rightarrow> (r, counters, disks'))
       | VIR_DOMAIN_CONTROLLER_TYPE_USB \<Rightarrow>
           if Suc nusbcontrollers > 1 then
             (Inl (VIR_ERR_CONFIG_UNSUPPORTED, ''only single USB controller is supported''),
              (Suc nusbcontrollers, nisacontrollers), disks)
           else
             (bhyveBuildUSBControllerArgStr def controller,
              (Suc nusbcontrollers, nisacontrollers), disks)
       | VIR_DOMAIN_CONTROLLER_TYPE_ISA \<Rightarrow>
           if Suc nisacontrollers > 1 then
             (Inl (VIR_ERR_CONFIG_UNSUPPORTED, ''only single ISA controller is supported''),
              (nusbcontrollers, Suc nisacontrollers), disks)
           else
             (Inr [''-s'', fmt_d (ctl_slot controller) @ '':0,lpc''],
              (nusbcontrollers, Suc nisacontrollers), disks)
       | VIR_DOMAIN_CONTROLLER_TYPE_OTHER \<Rightarrow> (Inr [], counters, disks)))"

subsection \<open>\<^verbatim>\<open>bhyveBuildGraphicsArgStr\<close>, lines 372-482\<close>

text \<open>Lines 438-444: an address with a colon in it is put in brackets.\<close>

definition listen_address_text :: "virDomainGraphicsListenDef \<Rightarrow> string" where
  "listen_address_text glisten =
     (case listen_address glisten of
        None \<Rightarrow> []
      | Some a \<Rightarrow> if CHR '':'' \<in> set a then ''['' @ a @ '']'' else a)"

text \<open>Lines 471-476: the resolution and the VGA setting of the video device.\<close>

definition video_text :: "virDomainVideoDef \<Rightarrow> string" where
  "video_text video =
     (case video_res video of
        None \<Rightarrow> []
      | Some (x, y) \<Rightarrow> '',w='' @ fmt_d x @ '',h='' @ fmt_d y) @
     (case video_vgaconf video of
        None \<Rightarrow> []
      | Some vga \<Rightarrow> '',vga='' @ fmt_s vga)"

text \<open>
  Lines 415-459, the listen types \<^verbatim>\<open>ADDRESS\<close> and \<^verbatim>\<open>NETWORK\<close>: the port is checked,
  then the password, and outside a dry run the port allocator is called.  The result is
  the text after \<^verbatim>\<open>,tcp=\<close>, with the graphics device and the call record.
\<close>

definition vnc_tcp ::
  "host \<Rightarrow> virDomainGraphicsDef \<Rightarrow> virDomainGraphicsListenDef \<Rightarrow> bool \<Rightarrow> host_call list \<Rightarrow>
   (virError + string) \<times> virDomainGraphicsDef \<times> host_call list" where
  "vnc_tcp H graphics glisten dryRun log =
     (if \<not> vnc_autoport graphics \<and> (vnc_port graphics < 5900 \<or> vnc_port graphics > 65535) then
        (Inl (VIR_ERR_CONFIG_UNSUPPORTED, ''vnc port must be in range [5900,65535]''),
         graphics, log)
      else if vnc_passwd graphics \<noteq> None then
        (Inl (VIR_ERR_CONFIG_UNSUPPORTED, ''vnc password auth not supported''), graphics, log)
      else if \<not> dryRun then
        (if vnc_autoport graphics then
           (case virPortAllocatorAcquire H log of
              None \<Rightarrow> (Inl (VIR_ERR_FROM_CALLEE, []), graphics, log @ [PortAllocatorAcquire])
            | Some port \<Rightarrow>
                (Inr (listen_address_text glisten @ '':'' @ string_of_int (uint port)),
                 graphics\<lparr>vnc_port := uint port\<rparr>, log @ [PortAllocatorAcquire]))
         else
           (Inr (listen_address_text glisten @ '':'' @ string_of_int (vnc_port graphics)),
            graphics, log @ [PortAllocatorSetUsed (word_of_int (vnc_port graphics))]))
      else
        (Inr (listen_address_text glisten @ '':'' @ string_of_int (vnc_port graphics)),
         graphics, log))"

definition bhyveBuildGraphicsArgStr ::
  "host \<Rightarrow> bhyveConn \<Rightarrow> virDomainDef \<Rightarrow> virDomainGraphicsDef \<Rightarrow> virDomainVideoDef \<Rightarrow> bool \<Rightarrow>
   host_call list \<Rightarrow> (virError + string list) \<times> virDomainGraphicsDef \<times> host_call list" where
  "bhyveBuildGraphicsArgStr H driver def graphics video dryRun log =
     (if \<not> has_cap (bhyvecaps driver) BHYVE_CAP_LPC_BOOTROM \<or>
         os_bootloader def \<noteq> None \<or> os_loader def = None then
        (Inl (VIR_ERR_CONFIG_UNSUPPORTED, ''Graphics are only supported when booting using UEFI''),
         graphics, log)
      else if \<not> has_cap (bhyvecaps driver) BHYVE_CAP_FBUF then
        (Inl (VIR_ERR_CONFIG_UNSUPPORTED, ''Bhyve version does not support framebuffer''),
         graphics, log)
      else if gfx_type graphics \<noteq> VIR_DOMAIN_GRAPHICS_TYPE_VNC then
        (Inl (VIR_ERR_CONFIG_UNSUPPORTED, ''Only VNC supported''), graphics, log)
      else
        (case gfx_listens graphics of
           [] \<Rightarrow> (Inl (VIR_ERR_INTERNAL_ERROR, ''Missing listen element''), graphics, log)
         | glisten # _ \<Rightarrow>
             (let opt = fmt_d (video_slot video) @ '':'' @ fmt_d (video_function video) @
                        '',fbuf''
              in if listen_type glisten = VIR_DOMAIN_GRAPHICS_LISTEN_TYPE_ADDRESS \<or>
                    listen_type glisten = VIR_DOMAIN_GRAPHICS_LISTEN_TYPE_NETWORK then
                   (case vnc_tcp H graphics glisten dryRun log of
                      (Inl e, graphics', log') \<Rightarrow> (Inl e, graphics', log')
                    | (Inr tcp, graphics', log') \<Rightarrow>
                        (Inr [''-s'', opt @ '',tcp='' @ tcp @ video_text video],
                         graphics', log'))
                 else if listen_type glisten = VIR_DOMAIN_GRAPHICS_LISTEN_TYPE_SOCKET \<or>
                         listen_type glisten = VIR_DOMAIN_GRAPHICS_LISTEN_TYPE_NONE then
                   (Inl (VIR_ERR_CONFIG_UNSUPPORTED, ''Unsupported listen type''),
                    graphics, log)
                 else
                   (Inl (VIR_ERR_INTERNAL_ERROR, ''Unexpected enum value %d for %s''),
                    graphics, log))))"

subsection \<open>\<^verbatim>\<open>bhyveBuildSoundArgStr\<close>, lines 484-537\<close>

definition audio_params :: "virDomainAudioDef option \<Rightarrow> virError + string" where
  "audio_params audio =
     (case audio of
        None \<Rightarrow> Inr []
      | Some a \<Rightarrow>
          (case audio_type a of
             VIR_DOMAIN_AUDIO_TYPE_OSS \<Rightarrow>
               Inr ((case audio_inputDev a of None \<Rightarrow> [] | Some d \<Rightarrow> '',play='' @ d) @
                    (case audio_outputDev a of None \<Rightarrow> [] | Some d \<Rightarrow> '',rec='' @ d))
           | VIR_DOMAIN_AUDIO_TYPE_LAST \<Rightarrow>
               Inl (VIR_ERR_CONFIG_UNSUPPORTED, ''unsupported audio backend '%s'' @ [CHR 0x27])))"

definition bhyveBuildSoundArgStr ::
  "bhyveConn \<Rightarrow> virDomainSoundDef \<Rightarrow> virError + string list" where
  "bhyveBuildSoundArgStr driver sound =
     (if \<not> has_cap (bhyvecaps driver) BHYVE_CAP_SOUND_HDA then
        Inl (VIR_ERR_CONFIG_UNSUPPORTED,
             ''Sound devices emulation is not supported by given bhyve binary'')
      else if sound_model sound \<noteq> VIR_DOMAIN_SOUND_MODEL_ICH7 then
        Inl (VIR_ERR_CONFIG_UNSUPPORTED, ''Sound device model is not supported'')
      else
        (case audio_params (sound_audio sound) of
           Inl e \<Rightarrow> Inl e
         | Inr params \<Rightarrow>
             Inr [''-s'',
                  fmt_d (sound_slot sound) @ '':'' @ fmt_d (sound_function sound) @
                    '',hda'' @ params]))"

section \<open>The command assembler: \<^verbatim>\<open>virBhyveProcessBuildBhyveCmd\<close>, lines 539-713\<close>

subsection \<open>The leading arguments\<close>

text \<open>
  Lines 557-587.  The product is computed on \<^verbatim>\<open>unsigned int\<close>, so it wraps at
  \<open>2 ^ 32\<close>, as the multiplication of \<^typ>\<open>32 word\<close> does.
\<close>

definition bhyveCPUArgs :: "bhyveConn \<Rightarrow> virDomainDef \<Rightarrow> virError + string list" where
  "bhyveCPUArgs driver def =
     (let nvcpus = def_vcpus def in
      case def_cpu def of
        None \<Rightarrow> Inr [''-c'', fmt_d nvcpus]
      | Some cpu \<Rightarrow>
          if cpu_sockets cpu = 0 then Inr [''-c'', fmt_d nvcpus]
          else if cpu_dies cpu \<noteq> 1 then
            Inl (VIR_ERR_CONFIG_UNSUPPORTED, ''Only 1 die per socket is supported'')
          else if nvcpus \<noteq> cpu_sockets cpu * cpu_cores cpu * cpu_threads cpu then
            Inl (VIR_ERR_CONFIG_UNSUPPORTED,
                 ''Invalid CPU topology: total number of vCPUs must equal the product of sockets, cores, and threads'')
          else if has_cap (bhyvecaps driver) BHYVE_CAP_CPUTOPOLOGY then
            Inr [''-c'',
                 ''cpus='' @ fmt_d nvcpus @ '',sockets='' @ fmt_d (cpu_sockets cpu) @
                   '',cores='' @ fmt_d (cpu_cores cpu) @
                   '',threads='' @ fmt_d (cpu_threads cpu)]
          else
            Inl (VIR_ERR_CONFIG_UNSUPPORTED,
                 ''Installed bhyve binary does not support defining CPU topology''))"

text \<open>
  Lines 589-595.  \<^verbatim>\<open>VIR_DIV_UP(value, size)\<close> is \<^verbatim>\<open>((value) + (size) - 1) / (size)\<close>
  on \<^verbatim>\<open>unsigned long long\<close>.
\<close>

definition VIR_DIV_UP :: "64 word \<Rightarrow> 64 word \<Rightarrow> 64 word" where
  "VIR_DIV_UP v sz = (v + sz - 1) div sz"

definition bhyveMemoryArgs :: "virDomainDef \<Rightarrow> string list" where
  "bhyveMemoryArgs def =
     [''-m'', fmt_llu (VIR_DIV_UP (def_memory def) 1024)] @
     (if def_mem_locked def then [''-S''] else [])"

text \<open>Lines 597-605.\<close>

definition bhyveOptionArgs :: "virDomainDef \<Rightarrow> string list" where
  "bhyveOptionArgs def =
     (if feature_acpi def = VIR_TRISTATE_SWITCH_ON then [''-A''] else []) @
     (if feature_apic def = VIR_TRISTATE_SWITCH_ON then [''-I''] else []) @
     (if feature_msrs def = VIR_TRISTATE_SWITCH_ON \<and>
         msrs_unknown def = VIR_DOMAIN_MSRS_UNKNOWN_IGNORE then [''-w''] else [])"

text \<open>Lines 607-626.\<close>

definition bhyveClockArgs :: "bhyveConn \<Rightarrow> virDomainDef \<Rightarrow> virError + string list" where
  "bhyveClockArgs driver def =
     (case clock_offset def of
        VIR_DOMAIN_CLOCK_OFFSET_LOCALTIME \<Rightarrow> Inr []
      | VIR_DOMAIN_CLOCK_OFFSET_UTC \<Rightarrow>
          if has_cap (bhyvecaps driver) BHYVE_CAP_RTC_UTC then Inr [''-u'']
          else Inl (VIR_ERR_CONFIG_UNSUPPORTED,
                    ''Installed bhyve binary does not support UTC clock'')
      | _ \<Rightarrow> Inl (VIR_ERR_CONFIG_UNSUPPORTED, ''unsupported clock offset '%s'' @ [CHR 0x27]))"

text \<open>Lines 639-642.\<close>

definition bhyveFixedArgs :: "string list" where
  "bhyveFixedArgs = [''-H'', ''-P'', ''-s'', ''0:0,hostbridge'']"

text \<open>Lines 644-655.\<close>

definition bhyveBootromArgs :: "bhyveConn \<Rightarrow> virDomainDef \<Rightarrow> virError + string list" where
  "bhyveBootromArgs driver def =
     (case os_loader def of
        None \<Rightarrow> Inr []
      | Some path \<Rightarrow>
          if os_bootloader def \<noteq> None then Inr []
          else if has_cap (bhyvecaps driver) BHYVE_CAP_LPC_BOOTROM then
            Inr [''-l'', ''bootrom,'' @ fmt_s path]
          else
            Inl (VIR_ERR_CONFIG_UNSUPPORTED,
                 ''Installed bhyve binary does not support UEFI loader''))"

subsection \<open>The device loops, lines 657-670\<close>

fun bhyveBuildControllers ::
  "library \<Rightarrow> bhyveConn \<Rightarrow> virDomainDef \<Rightarrow> virDomainControllerDef list \<Rightarrow> nat \<times> nat \<Rightarrow>
   virDomainDiskDef list \<Rightarrow> (virError + string list) \<times> virDomainDiskDef list" where
  "bhyveBuildControllers L driver def [] counters disks = (Inr [], disks)"
| "bhyveBuildControllers L driver def (controller # rest) counters disks =
     (case bhyveBuildControllerArgStr L driver def controller counters disks of
        (Inl e, counters', disks') \<Rightarrow> (Inl e, disks')
      | (Inr args, counters', disks') \<Rightarrow>
          (case bhyveBuildControllers L driver def rest counters' disks' of
             (Inl e, disks'') \<Rightarrow> (Inl e, disks'')
           | (Inr others, disks'') \<Rightarrow> (Inr (args @ others), disks'')))"

fun bhyveBuildNets ::
  "host \<Rightarrow> bhyveConn \<Rightarrow> bool \<Rightarrow> virDomainNetDef list \<Rightarrow> host_call list \<Rightarrow>
   (virError + string list) \<times> virDomainNetDef list \<times> host_call list" where
  "bhyveBuildNets H driver dryRun [] log = (Inr [], [], log)"
| "bhyveBuildNets H driver dryRun (net # rest) log =
     (case bhyveBuildNetArgStr H driver dryRun net log of
        (Inl e, net', log') \<Rightarrow> (Inl e, net' # rest, log')
      | (Inr args, net', log') \<Rightarrow>
          (case bhyveBuildNets H driver dryRun rest log' of
             (Inl e, rest', log'') \<Rightarrow> (Inl e, net' # rest', log'')
           | (Inr others, rest', log'') \<Rightarrow> (Inr (args @ others), net' # rest', log'')))"

fun bhyveBuildDisks ::
  "library \<Rightarrow> virDomainDiskDef list \<Rightarrow> (virError + string list) \<times> virDomainDiskDef list" where
  "bhyveBuildDisks L [] = (Inr [], [])"
| "bhyveBuildDisks L (disk # rest) =
     (case bhyveBuildDiskArgStr L disk of
        (Inl e, disk') \<Rightarrow> (Inl e, disk' # rest)
      | (Inr args, disk') \<Rightarrow>
          (case bhyveBuildDisks L rest of
             (Inl e, rest') \<Rightarrow> (Inl e, disk' # rest')
           | (Inr others, rest') \<Rightarrow> (Inr (args @ others), disk' # rest')))"

fun bhyveBuildSounds :: "bhyveConn \<Rightarrow> virDomainSoundDef list \<Rightarrow> virError + string list" where
  "bhyveBuildSounds driver [] = Inr []"
| "bhyveBuildSounds driver (sound # rest) =
     (case bhyveBuildSoundArgStr driver sound of
        Inl e \<Rightarrow> Inl e
      | Inr args \<Rightarrow>
          (case bhyveBuildSounds driver rest of
             Inl e \<Rightarrow> Inl e
           | Inr others \<Rightarrow> Inr (args @ others)))"

subsection \<open>The three parts of the assembler\<close>

text \<open>
  Lines 557-670: everything up to and including the loop over the disks.  The result
  carries the configuration as the formatters left it and the host calls made.
\<close>

definition bhyveBuildHead ::
  "library \<Rightarrow> host \<Rightarrow> bhyveConn \<Rightarrow> virDomainDef \<Rightarrow> bool \<Rightarrow>
   (virError + string list) \<times> virDomainDef \<times> host_call list" where
  "bhyveBuildHead L H driver def dryRun =
     (case bhyveCPUArgs driver def of
        Inl e \<Rightarrow> (Inl e, def, [])
      | Inr cpu \<Rightarrow>
     (case bhyveClockArgs driver def of
        Inl e \<Rightarrow> (Inl e, def, [])
      | Inr clock \<Rightarrow>
     (case bhyveBootromArgs driver def of
        Inl e \<Rightarrow> (Inl e, def, [])
      | Inr rom \<Rightarrow>
     (case bhyveBuildControllers L driver def (def_controllers def) (0, 0) (def_disks def) of
        (Inl e, disks1) \<Rightarrow> (Inl e, def\<lparr>def_disks := disks1\<rparr>, [])
      | (Inr ctl, disks1) \<Rightarrow>
     (case bhyveBuildNets H driver dryRun (def_nets def) [] of
        (Inl e, nets1, log1) \<Rightarrow> (Inl e, def\<lparr>def_nets := nets1, def_disks := disks1\<rparr>, log1)
      | (Inr nets, nets1, log1) \<Rightarrow>
     (case bhyveBuildDisks L disks1 of
        (Inl e, disks2) \<Rightarrow> (Inl e, def\<lparr>def_nets := nets1, def_disks := disks2\<rparr>, log1)
      | (Inr dsk, disks2) \<Rightarrow>
          (Inr (cpu @ bhyveMemoryArgs def @ bhyveOptionArgs def @ clock @ bhyveFixedArgs @
                rom @ ctl @ nets @ dsk),
           def\<lparr>def_nets := nets1, def_disks := disks2\<rparr>, log1)))))))"

text \<open>Lines 672-682: the graphics and video pair.\<close>

definition bhyveBuildGraphics ::
  "host \<Rightarrow> bhyveConn \<Rightarrow> virDomainDef \<Rightarrow> bool \<Rightarrow> host_call list \<Rightarrow>
   (virError + string list) \<times> virDomainDef \<times> host_call list" where
  "bhyveBuildGraphics H driver def dryRun log =
     (case def_graphics def of
        [] \<Rightarrow> (Inr [], def, log)
      | graphics # gs \<Rightarrow>
          (case def_videos def of
             [] \<Rightarrow> (Inr [], def, log)
           | video # vs \<Rightarrow>
               if gs = [] \<and> vs = [] then
                 (case bhyveBuildGraphicsArgStr H driver def graphics video dryRun log of
                    (r, graphics', log') \<Rightarrow> (r, def\<lparr>def_graphics := [graphics']\<rparr>, log'))
               else
                 (Inl (VIR_ERR_CONFIG_UNSUPPORTED,
                       ''Multiple graphics devices are not supported''), def, log)))"

text \<open>Lines 684-706: sound devices, console, pass-through arguments and the name.\<close>

definition bhyveBuildTail :: "bhyveConn \<Rightarrow> virDomainDef \<Rightarrow> virError + string list" where
  "bhyveBuildTail driver def =
     (case bhyveBuildSounds driver (def_sounds def) of
        Inl e \<Rightarrow> Inl e
      | Inr snd_args \<Rightarrow>
          (case bhyveBuildConsoleArgStr def of
             Inl e \<Rightarrow> Inl e
           | Inr console \<Rightarrow>
               Inr (snd_args @ console @
                    (case def_namespaceData def of None \<Rightarrow> [] | Some args \<Rightarrow> args) @
                    [def_name def])))"

text \<open>
  The whole function.  It returns the command, or the error after which the command
  was freed, with the configuration as it was left and the host calls made.
\<close>

definition virBhyveProcessBuildBhyveCmd ::
  "library \<Rightarrow> host \<Rightarrow> bhyveConn \<Rightarrow> virDomainDef \<Rightarrow> bool \<Rightarrow>
   (virError + virCommand) \<times> virDomainDef \<times> host_call list" where
  "virBhyveProcessBuildBhyveCmd L H driver def dryRun =
     (case bhyveBuildHead L H driver def dryRun of
        (Inl e, def1, log1) \<Rightarrow> (Inl e, def1, log1)
      | (Inr head_args, def1, log1) \<Rightarrow>
          (case bhyveBuildGraphics H driver def1 dryRun log1 of
             (Inl e, def2, log2) \<Rightarrow> (Inl e, def2, log2)
           | (Inr gfx, def2, log2) \<Rightarrow>
               (case bhyveBuildTail driver def2 of
                  Inl e \<Rightarrow> (Inl e, def2, log2)
                | Inr tail_args \<Rightarrow>
                    (Inr (virCommandAddArgs (virCommandNew BHYVE) (head_args @ gfx @ tail_args)),
                     def2, log2))))"

section \<open>Boot resolution and loader selection\<close>

subsection \<open>\<^verbatim>\<open>virAppendBootloaderArgs\<close> and the two simple loaders, lines 727-784\<close>

definition virAppendBootloaderArgs :: "library \<Rightarrow> virCommand \<Rightarrow> string \<Rightarrow> virCommand" where
  "virAppendBootloaderArgs L cmd bootloaderArgs =
     virCommandAddArgs cmd (virStringSplit L bootloaderArgs '' '')"

definition virBhyveProcessBuildBhyveloadCmd ::
  "library \<Rightarrow> virDomainDef \<Rightarrow> virDomainDiskDef \<Rightarrow> virCommand" where
  "virBhyveProcessBuildBhyveloadCmd L def disk =
     (case os_bootloaderArgs def of
        None \<Rightarrow>
          virCommandAddArg
            (virCommandAddArg
               (virCommandAddArgs (virCommandNew BHYVELOAD)
                  [''-m'', fmt_llu (VIR_DIV_UP (def_memory def) 1024), ''-d''])
               (src_path (disk_src disk)))
            (Some (def_name def))
      | Some args \<Rightarrow> virAppendBootloaderArgs L (virCommandNew BHYVELOAD) args)"

text \<open>The caller has checked that \<^verbatim>\<open>def->os.bootloader\<close> is set; it is passed in.\<close>

definition virBhyveProcessBuildCustomLoaderCmd ::
  "library \<Rightarrow> virDomainDef \<Rightarrow> string \<Rightarrow> virError + virCommand" where
  "virBhyveProcessBuildCustomLoaderCmd L def bootloader =
     (case os_bootloaderArgs def of
        None \<Rightarrow>
          Inl (VIR_ERR_CONFIG_UNSUPPORTED, ''Custom loader requires explicit %s configuration'')
      | Some args \<Rightarrow> Inr (virAppendBootloaderArgs L (virCommandNew (Path bootloader)) args))"

subsection \<open>\<^verbatim>\<open>virBhyveUsableDisk\<close>, lines 786-807\<close>

text \<open>
  The result is \<open>None\<close> for \<^verbatim>\<open>true\<close>, and for \<^verbatim>\<open>false\<close> the error that was reported; the
  disk is returned as the translation left it.
\<close>

definition virBhyveUsableDisk ::
  "library \<Rightarrow> virDomainDiskDef \<Rightarrow> virError option \<times> virDomainDiskDef" where
  "virBhyveUsableDisk L disk =
     (case virDomainDiskTranslateSourcePool L (disk_src disk) of
        None \<Rightarrow> (Some (VIR_ERR_FROM_CALLEE, []), disk)
      | Some src \<Rightarrow>
          let disk' = disk\<lparr>disk_src := src\<rparr> in
          if disk_device disk' \<noteq> VIR_DOMAIN_DISK_DEVICE_DISK \<and>
             disk_device disk' \<noteq> VIR_DOMAIN_DISK_DEVICE_CDROM then
            (Some (VIR_ERR_CONFIG_UNSUPPORTED, ''unsupported disk device''), disk')
          else if src_type src \<noteq> VIR_STORAGE_TYPE_FILE \<and>
                  src_type src \<noteq> VIR_STORAGE_TYPE_VOLUME then
            (Some (VIR_ERR_CONFIG_UNSUPPORTED, ''unsupported disk type''), disk')
          else (None, disk'))"

subsection \<open>\<^verbatim>\<open>virBhyveProcessBuildGrubbhyveCmd\<close>, lines 809-924\<close>

definition virBhyveFormatGrubDevice :: "virDomainDiskDef \<Rightarrow> string" where
  "virBhyveFormatGrubDevice disk =
     (if disk_device disk = VIR_DOMAIN_DISK_DEVICE_CDROM
      then ''(cd) '' @ fmt_s (src_path (disk_src disk)) @ [CHR 0x0A]
      else ''(hd0) '' @ fmt_s (src_path (disk_src disk)) @ [CHR 0x0A])"

text \<open>
  The loop of lines 838-861 over \<^verbatim>\<open>cd\<close>, \<^verbatim>\<open>hdd\<close>, \<^verbatim>\<open>userdef\<close> and \<^verbatim>\<open>best_idx\<close>.
\<close>

fun grub_scan ::
  "library \<Rightarrow>
   virDomainDiskDef option \<times> virDomainDiskDef option \<times> virDomainDiskDef option \<times> 32 word \<Rightarrow>
   virDomainDiskDef list \<Rightarrow>
   (virDomainDiskDef option \<times> virDomainDiskDef option \<times> virDomainDiskDef option \<times> 32 word) \<times>
   virDomainDiskDef list" where
  "grub_scan L st [] = (st, [])"
| "grub_scan L (cd, hdd, userdef, best_idx) (disk # rest) =
     (case virBhyveUsableDisk L disk of
        (Some e, disk') \<Rightarrow>
          (case grub_scan L (cd, hdd, userdef, best_idx) rest of
             (st, rest') \<Rightarrow> (st, disk' # rest'))
      | (None, diskdef) \<Rightarrow>
          if disk_bootIndex diskdef \<noteq> 0 \<and> disk_bootIndex diskdef < best_idx then
            (case grub_scan L (cd, hdd, Some diskdef, disk_bootIndex diskdef) rest of
               (st, rest') \<Rightarrow> (st, diskdef # rest'))
          else
            (let cd' = (if cd = None \<and> disk_device diskdef = VIR_DOMAIN_DISK_DEVICE_CDROM
                        then Some diskdef else cd);
                 hdd' = (if hdd = None \<and> disk_device diskdef = VIR_DOMAIN_DISK_DEVICE_DISK
                         then Some diskdef else hdd)
             in case grub_scan L (cd', hdd', userdef, best_idx) rest of
                  (st, rest') \<Rightarrow> (st, diskdef # rest')))"

text \<open>Lines 867-882: the device map, \<^verbatim>\<open>NULL\<close> when nothing was written to the buffer.\<close>

definition grub_devicemap ::
  "virDomainDiskDef option \<Rightarrow> virDomainDiskDef option \<Rightarrow> virDomainDiskDef option \<Rightarrow>
   string option" where
  "grub_devicemap cd hdd userdef =
     (let text =
        (case userdef of
           Some u \<Rightarrow> virBhyveFormatGrubDevice u
         | None \<Rightarrow>
             (case hdd of None \<Rightarrow> [] | Some h \<Rightarrow> virBhyveFormatGrubDevice h) @
             (case cd of None \<Rightarrow> [] | Some c \<Rightarrow> virBhyveFormatGrubDevice c))
      in if text = [] then None else Some text)"

definition grub_root ::
  "virDomainDiskDef option \<Rightarrow> virDomainDiskDef option \<Rightarrow> string" where
  "grub_root cd userdef =
     (case userdef of
        Some u \<Rightarrow>
          if disk_device u = VIR_DOMAIN_DISK_DEVICE_CDROM then ''cd'' else ''hd0,msdos1''
      | None \<Rightarrow> if cd \<noteq> None then ''cd'' else ''hd0,msdos1'')"

text \<open>
  \<open>want_map\<close> says that \<^verbatim>\<open>devicesmap_out\<close> is not \<^verbatim>\<open>NULL\<close>; the second component of the
  result is what is stored there, \<open>None\<close> when nothing is stored.
\<close>

definition virBhyveProcessBuildGrubbhyveCmd ::
  "library \<Rightarrow> bhyveConn \<Rightarrow> virDomainDef \<Rightarrow> string \<Rightarrow> string \<Rightarrow> bool \<Rightarrow>
   (virError + virCommand) \<times> string option \<times> virDomainDiskDef list" where
  "virBhyveProcessBuildGrubbhyveCmd L driver def bootloader devmap_file want_map =
     (if os_bootloaderArgs def \<noteq> None then
        (virBhyveProcessBuildCustomLoaderCmd L def bootloader, None, def_disks def)
      else
        (case grub_scan L (None, None, None, - 1) (def_disks def) of
           ((cd, hdd, userdef, best_idx), disks') \<Rightarrow>
             (let devicesmap = (if want_map then grub_devicemap cd hdd userdef else None);
                  cmd = virCommandAddArgs (virCommandNew (Path bootloader))
                          [''--root'', grub_root cd userdef, ''--device-map'', devmap_file,
                           ''--memory'', fmt_llu (VIR_DIV_UP (def_memory def) 1024)]
              in case (if has_cap (grubcaps driver) BHYVE_GRUB_CAP_CONSDEV
                       then def_serials def else []) of
                   [] \<Rightarrow> (Inr (virCommandAddArg cmd (Some (def_name def))), devicesmap, disks')
                 | chr # _ \<Rightarrow>
                     if chr_source_type chr \<noteq> VIR_DOMAIN_CHR_TYPE_NMDM then
                       (Inl (VIR_ERR_CONFIG_UNSUPPORTED,
                             ''only nmdm console types are supported''), devicesmap, disks')
                     else
                       (Inr (virCommandAddArg
                               (virCommandAddArg
                                  (virCommandAddArg cmd (Some ''--cons-dev''))
                                  (chr_source_path chr))
                               (Some (def_name def))),
                        devicesmap, disks'))))"

subsection \<open>\<^verbatim>\<open>virBhyveGetBootDisk\<close>, lines 926-1010\<close>

text \<open>Lines 939-957: the device kind asked for by the boot order, if any.\<close>

definition boot_dev :: "virDomainDef \<Rightarrow> virError + virDomainDiskDevice option" where
  "boot_dev def =
     (case os_bootDevs def of
        [] \<Rightarrow> Inr None
      | [b] \<Rightarrow>
          (case b of
             VIR_DOMAIN_BOOT_CDROM \<Rightarrow> Inr (Some VIR_DOMAIN_DISK_DEVICE_CDROM)
           | VIR_DOMAIN_BOOT_DISK \<Rightarrow> Inr (Some VIR_DOMAIN_DISK_DEVICE_DISK)
           | _ \<Rightarrow> Inl (VIR_ERR_CONFIG_UNSUPPORTED, ''Cannot boot from device %s''))
      | _ \<Rightarrow> Inl (VIR_ERR_CONFIG_UNSUPPORTED, ''Only one boot device is supported''))"

text \<open>
  Lines 962-970: the first usable disk of the kind asked for, by its index \<open>i\<close>; the
  loop stops there.
\<close>

fun boot_dev_scan ::
  "library \<Rightarrow> virDomainDiskDevice \<Rightarrow> nat \<Rightarrow> virDomainDiskDef list \<Rightarrow>
   (nat \<times> virDomainDiskDef) option \<times> virDomainDiskDef list" where
  "boot_dev_scan L dev i [] = (None, [])"
| "boot_dev_scan L dev i (disk # rest) =
     (case virBhyveUsableDisk L disk of
        (Some e, disk') \<Rightarrow>
          (case boot_dev_scan L dev (Suc i) rest of (m, rest') \<Rightarrow> (m, disk' # rest'))
      | (None, disk') \<Rightarrow>
          if disk_device disk' = dev then (Some (i, disk'), disk' # rest)
          else (case boot_dev_scan L dev (Suc i) rest of (m, rest') \<Rightarrow> (m, disk' # rest')))"

text \<open>
  Lines 984-1001.  The state is \<^verbatim>\<open>match\<close>, \<^verbatim>\<open>first_usable_disk_index\<close> (\<open>None\<close> for
  \<^verbatim>\<open>-1\<close>) and the error reported last; \<open>i\<close> is the loop index.  The assignment
  \<^verbatim>\<open>first_usable_disk_index = i\<close> is made for every usable disk.
\<close>

fun boot_index_scan ::
  "library \<Rightarrow> nat \<Rightarrow> (nat \<times> virDomainDiskDef) option \<times> (nat \<times> virDomainDiskDef) option \<times> virError \<Rightarrow>
   virDomainDiskDef list \<Rightarrow>
   (virError + (nat \<times> virDomainDiskDef) option \<times> (nat \<times> virDomainDiskDef) option \<times> virError) \<times>
   virDomainDiskDef list" where
  "boot_index_scan L i st [] = (Inr st, [])"
| "boot_index_scan L i (match, first_usable, err) (disk # rest) =
     (case virBhyveUsableDisk L disk of
        (Some e, disk') \<Rightarrow>
          (case boot_index_scan L (Suc i) (match, first_usable, e) rest of
             (r, rest') \<Rightarrow> (r, disk' # rest'))
      | (None, disk') \<Rightarrow>
          if disk_bootIndex disk' > 0 then
            (case match of
               None \<Rightarrow>
                 (case boot_index_scan L (Suc i) (Some (i, disk'), Some (i, disk'), err) rest of
                    (r, rest') \<Rightarrow> (r, disk' # rest'))
             | Some m \<Rightarrow>
                 (Inl (VIR_ERR_CONFIG_UNSUPPORTED, ''Only one boot device is supported''),
                  disk' # rest))
          else
            (case boot_index_scan L (Suc i) (match, Some (i, disk'), err) rest of
               (r, rest') \<Rightarrow> (r, disk' # rest')))"

text \<open>
  The disk returned is given by its index in \<^verbatim>\<open>def->disks\<close> and its contents.  Where the
  function returns \<^verbatim>\<open>NULL\<close> without a report of its own, the error is the one
  \<^verbatim>\<open>virBhyveUsableDisk\<close> reported last.
\<close>

definition virBhyveGetBootDisk ::
  "library \<Rightarrow> virDomainDef \<Rightarrow> (virError + nat \<times> virDomainDiskDef) \<times> virDomainDiskDef list" where
  "virBhyveGetBootDisk L def =
     (if def_disks def = [] then
        (Inl (VIR_ERR_CONFIG_UNSUPPORTED, ''Domain should have at least one disk defined''),
         def_disks def)
      else
        (case boot_dev def of
           Inl e \<Rightarrow> (Inl e, def_disks def)
         | Inr (Some dev) \<Rightarrow>
             (case boot_dev_scan L dev 0 (def_disks def) of
                (None, disks') \<Rightarrow>
                  (Inl (VIR_ERR_CONFIG_UNSUPPORTED,
                        ''Cannot find boot device of requested type %s''), disks')
              | (Some m, disks') \<Rightarrow> (Inr m, disks'))
         | Inr None \<Rightarrow>
             (case boot_index_scan L 0 (None, None, (VIR_ERR_OK, [])) (def_disks def) of
                (Inl e, disks') \<Rightarrow> (Inl e, disks')
              | (Inr (match, first_usable, err), disks') \<Rightarrow>
                  (case match of
                     Some m \<Rightarrow> (Inr m, disks')
                   | None \<Rightarrow>
                       (case first_usable of
                          Some d \<Rightarrow> (Inr d, disks')
                        | None \<Rightarrow> (Inl err, disks'))))))"

subsection \<open>\<^verbatim>\<open>virBhyveProcessBuildLoadCmd\<close>, lines 1012-1031\<close>

definition virBhyveProcessBuildLoadCmd ::
  "library \<Rightarrow> bhyveConn \<Rightarrow> virDomainDef \<Rightarrow> string \<Rightarrow> bool \<Rightarrow>
   (virError + virCommand) \<times> string option \<times> virDomainDiskDef list" where
  "virBhyveProcessBuildLoadCmd L driver def devmap_file want_map =
     (case os_bootloader def of
        None \<Rightarrow>
          (case virBhyveGetBootDisk L def of
             (Inl e, disks') \<Rightarrow> (Inl e, None, disks')
           | (Inr (i, disk), disks') \<Rightarrow>
               (Inr (virBhyveProcessBuildBhyveloadCmd L def disk), None, disks'))
      | Some bootloader \<Rightarrow>
          if sublist ''grub-bhyve'' bootloader then
            virBhyveProcessBuildGrubbhyveCmd L driver def bootloader devmap_file want_map
          else
            (virBhyveProcessBuildCustomLoaderCmd L def bootloader, None, def_disks def))"

section \<open>Example configurations\<close>

text \<open>
  A library whose translation leaves a file alone and resolves a volume to a path
  under \<^verbatim>\<open>/pool/\<close>, failing for a volume without a name; its tokenizer cuts at every
  occurrence of a one-character delimiter.
\<close>

fun split_char :: "char \<Rightarrow> string \<Rightarrow> string \<Rightarrow> string list" where
  "split_char c cur [] = [cur]"
| "split_char c cur (x # xs) =
     (if x = c then cur # split_char c [] xs else split_char c (cur @ [x]) xs)"

definition example_library :: library where
  "example_library =
     \<lparr>virDomainDiskTranslateSourcePool =
        (\<lambda>src. if src_type src = VIR_STORAGE_TYPE_VOLUME then
                  (case src_path src of
                     None \<Rightarrow> None
                   | Some n \<Rightarrow> Some \<lparr>src_type = VIR_STORAGE_TYPE_FILE, src_path = Some (''/pool/'' @ n)\<rparr>)
                else Some src),
      virStringSplit =
        (\<lambda>s delim. if s = [] then [] else case delim of [c] \<Rightarrow> split_char c [] s | _ \<Rightarrow> [s])\<rparr>"

text \<open>Two hosts that answer differently, and a driver with every capability.\<close>

definition example_host :: host where
  "example_host =
     \<lparr>tap_prefix = ''vnet'',
      virNetDevTapCreateInBridgePort = (\<lambda>log br ifname. Some ''vnet0''),
      virNetDevTapGetRealDeviceName = (\<lambda>log ifname. Some ''tap7''),
      virNetDevSetOnline = (\<lambda>log ifname. True),
      virPortAllocatorAcquire = (\<lambda>log. Some 5901),
      virPortAllocatorSetUsed = (\<lambda>log port. True)\<rparr>"

definition failing_host :: host where
  "failing_host =
     \<lparr>tap_prefix = ''vnet'',
      virNetDevTapCreateInBridgePort = (\<lambda>log br ifname. None),
      virNetDevTapGetRealDeviceName = (\<lambda>log ifname. None),
      virNetDevSetOnline = (\<lambda>log ifname. False),
      virPortAllocatorAcquire = (\<lambda>log. None),
      virPortAllocatorSetUsed = (\<lambda>log port. False)\<rparr>"

definition full_driver :: bhyveConn where
  "full_driver = \<lparr>bhyvecaps = 255, grubcaps = 1\<rparr>"

definition bare_driver :: bhyveConn where
  "bare_driver = \<lparr>bhyvecaps = 0, grubcaps = 0\<rparr>"

definition file_disk :: "virDomainDiskBus \<Rightarrow> virDomainDiskDevice \<Rightarrow> string \<Rightarrow> virDomainDiskDef" where
  "file_disk bus device path =
     \<lparr>disk_bus = bus, disk_device = device,
      disk_src = \<lparr>src_type = VIR_STORAGE_TYPE_FILE, src_path = Some path\<rparr>,
      disk_controller = 0, disk_slot = 2, disk_bootIndex = 0\<rparr>"

definition bridged_nic :: virDomainNetDef where
  "bridged_nic =
     \<lparr>net_model = VIR_DOMAIN_NET_MODEL_VIRTIO, net_actualType = VIR_DOMAIN_NET_TYPE_BRIDGE,
      net_brname = Some ''virbr0'', net_ifname = None, net_slot = 1,
      net_mac = ''52:54:00:b9:94:02''\<rparr>"

text \<open>
  The example of the specification: 2 vCPUs, 256 MiB, one bridged virtio NIC, one virtio
  disk, no graphics.
\<close>

definition example_def :: virDomainDef where
  "example_def =
     \<lparr>def_name = ''bhyve'', def_vcpus = 2, def_cpu = None, def_memory = 262144,
      def_mem_locked = False,
      feature_acpi = VIR_TRISTATE_SWITCH_ABSENT, feature_apic = VIR_TRISTATE_SWITCH_ABSENT,
      feature_msrs = VIR_TRISTATE_SWITCH_ABSENT, msrs_unknown = VIR_DOMAIN_MSRS_UNKNOWN_IGNORE,
      clock_offset = VIR_DOMAIN_CLOCK_OFFSET_LOCALTIME,
      os_bootloader = None, os_bootloaderArgs = None, os_loader = None, os_bootDevs = [],
      def_controllers = [], def_inputs = [], def_nets = [bridged_nic],
      def_disks = [file_disk VIR_DOMAIN_DISK_BUS_VIRTIO VIR_DOMAIN_DISK_DEVICE_DISK ''/tmp/freebsd.img''],
      def_graphics = [], def_videos = [], def_sounds = [], def_serials = [],
      def_namespaceData = None\<rparr>"

definition nmdm_serial :: "int \<Rightarrow> virDomainChrDef" where
  "nmdm_serial port =
     \<lparr>chr_source_type = VIR_DOMAIN_CHR_TYPE_NMDM, chr_source_path = Some ''/dev/nmdm0A'',
      chr_target_port = port\<rparr>"

definition sata_controller :: virDomainControllerDef where
  "sata_controller =
     \<lparr>ctl_type = VIR_DOMAIN_CONTROLLER_TYPE_SATA, ctl_model = VIR_DOMAIN_CONTROLLER_MODEL_PCI_OTHER,
      ctl_idx = 0, ctl_slot = 2, ctl_function = 0\<rparr>"

definition vnc_graphics :: virDomainGraphicsDef where
  "vnc_graphics =
     \<lparr>gfx_type = VIR_DOMAIN_GRAPHICS_TYPE_VNC,
      gfx_listens = [\<lparr>listen_type = VIR_DOMAIN_GRAPHICS_LISTEN_TYPE_ADDRESS,
                      listen_address = Some ''127.0.0.1''\<rparr>],
      vnc_autoport = True, vnc_port = 0, vnc_passwd = None\<rparr>"

definition fbuf_video :: virDomainVideoDef where
  "fbuf_video = \<lparr>video_slot = 4, video_function = 0, video_res = None, video_vgaconf = None\<rparr>"

section \<open>Notions used to state the properties\<close>

text \<open>
  A disk is bound to a SATA controller when it is on the SATA bus and names the index of
  the controller (lines 177-181).
\<close>

definition ahci_bound :: "virDomainControllerDef \<Rightarrow> virDomainDiskDef \<Rightarrow> bool" where
  "ahci_bound controller disk =
     (disk_bus disk = VIR_DOMAIN_DISK_BUS_SATA \<and> disk_controller disk = ctl_idx controller)"

text \<open>The storage backing is a plain file or a managed volume.\<close>

definition file_or_volume :: "virDomainDiskDef \<Rightarrow> bool" where
  "file_or_volume disk =
     (src_type (disk_src disk) = VIR_STORAGE_TYPE_FILE \<or>
      src_type (disk_src disk) = VIR_STORAGE_TYPE_VOLUME)"

text \<open>The source path of a disk once its source is translated.\<close>

definition translated_path :: "library \<Rightarrow> virDomainDiskDef \<Rightarrow> string option" where
  "translated_path L disk =
     (case virDomainDiskTranslateSourcePool L (disk_src disk) of
        None \<Rightarrow> None
      | Some src \<Rightarrow> src_path src)"

text \<open>
  The three grounds on which the AHCI formatter itself refuses a bound disk: the storage
  backing, a CD-ROM without a source path, a device kind that is neither disk nor
  CD-ROM.
\<close>

definition ahci_refused :: "library \<Rightarrow> virDomainDiskDef \<Rightarrow> bool" where
  "ahci_refused L disk =
     (if file_or_volume disk then
        (disk_device disk = VIR_DOMAIN_DISK_DEVICE_CDROM \<and> translated_path L disk = None) \<or>
        disk_device disk = VIR_DOMAIN_DISK_DEVICE_OTHER
      else True)"

text \<open>The sub-fragment of one bound disk in the argument of its controller.\<close>

definition ahci_fragment :: "library \<Rightarrow> bhyveConn \<Rightarrow> virDomainDiskDef \<Rightarrow> string" where
  "ahci_fragment L driver disk =
     (if has_cap (bhyvecaps driver) BHYVE_CAP_AHCI32SLOT then
        (if disk_device disk = VIR_DOMAIN_DISK_DEVICE_CDROM then '',cd:'' else '',hd:'') @
        fmt_s (translated_path L disk)
      else
        (if disk_device disk = VIR_DOMAIN_DISK_DEVICE_CDROM then ''-cd,'' else ''-hd,'') @
        fmt_s (translated_path L disk))"

text \<open>
  A library whose storage pools cannot be reached: the translation of a volume fails.
\<close>

definition pool_down_library :: library where
  "pool_down_library =
     \<lparr>virDomainDiskTranslateSourcePool =
        (\<lambda>src. if src_type src = VIR_STORAGE_TYPE_VOLUME then None else Some src),
      virStringSplit = virStringSplit example_library\<rparr>"

definition volume_disk :: "virDomainDiskBus \<Rightarrow> virDomainDiskDevice \<Rightarrow> string \<Rightarrow> virDomainDiskDef" where
  "volume_disk bus device vol =
     \<lparr>disk_bus = bus, disk_device = device,
      disk_src = \<lparr>src_type = VIR_STORAGE_TYPE_VOLUME, src_path = Some vol\<rparr>,
      disk_controller = 0, disk_slot = 3, disk_bootIndex = 0\<rparr>"

definition empty_cdrom :: virDomainDiskDef where
  "empty_cdrom =
     \<lparr>disk_bus = VIR_DOMAIN_DISK_BUS_SATA, disk_device = VIR_DOMAIN_DISK_DEVICE_CDROM,
      disk_src = \<lparr>src_type = VIR_STORAGE_TYPE_FILE, src_path = None\<rparr>,
      disk_controller = 0, disk_slot = 0, disk_bootIndex = 0\<rparr>"

text \<open>
  The usable disks of a configuration, in its order, each with its index in
  \<^verbatim>\<open>def->disks\<close> (counted from \<open>i\<close>) and as the translation leaves it.
\<close>

fun usable_disks ::
  "library \<Rightarrow> nat \<Rightarrow> virDomainDiskDef list \<Rightarrow> (nat \<times> virDomainDiskDef) list" where
  "usable_disks L i [] = []"
| "usable_disks L i (disk # rest) =
     (case virBhyveUsableDisk L disk of
        (None, disk') \<Rightarrow> (i, disk') # usable_disks L (Suc i) rest
      | (Some e, disk') \<Rightarrow> usable_disks L (Suc i) rest)"

text \<open>
  A topology of 2 sockets with \<open>2 ^ 31 + 1\<close> cores each and one thread per core: its
  product is \<open>2 ^ 32 + 2\<close>.
\<close>

definition wrapping_cpu :: virCPUDef where
  "wrapping_cpu = \<lparr>cpu_sockets = 2, cpu_dies = 1, cpu_cores = 2147483649, cpu_threads = 1\<rparr>"

section \<open>Basic facts\<close>

lemma string_of_nat_digit: "n < 10 \<Longrightarrow> string_of_nat n = [digit_char n]"
  by (simp add: string_of_nat.simps)

lemma virCommandAddArgs_step:
  "\<not> cmd_has_error cmd \<Longrightarrow>
     virCommandAddArgs cmd vals = cmd\<lparr>cmd_args := cmd_args cmd @ vals\<rparr>"
  unfolding virCommandAddArgs_def
  by (induction vals arbitrary: cmd) (simp_all add: virCommandAddArg_def)

lemma virCommandAddArgs_New:
  "virCommandAddArgs (virCommandNew b) vals =
     \<lparr>cmd_binary = b, cmd_args = vals, cmd_has_error = False\<rparr>"
  by (simp add: virCommandAddArgs_step virCommandNew_def)

text \<open>Evaluation of the examples: the definitions to unfold.\<close>

lemmas example_defs =
  example_def_def example_library_def pool_down_library_def example_host_def
  failing_host_def full_driver_def bare_driver_def file_disk_def volume_disk_def
  empty_cdrom_def bridged_nic_def nmdm_serial_def sata_controller_def vnc_graphics_def
  fbuf_video_def

lemmas fmt_defs =
  fmt_d_def fmt_s_def fmt_llu_def string_of_int_def string_of_nat.simps digit_char_def

lemmas cap_defs =
  has_cap_def BHYVE_CAP_RTC_UTC_def BHYVE_CAP_AHCI32SLOT_def BHYVE_CAP_NET_E1000_def
  BHYVE_CAP_LPC_BOOTROM_def BHYVE_CAP_FBUF_def BHYVE_CAP_XHCI_def BHYVE_CAP_CPUTOPOLOGY_def
  BHYVE_CAP_SOUND_HDA_def BHYVE_GRUB_CAP_CONSDEV_def

text \<open>The example of the specification, built on a host.\<close>

lemma example_build:
  "virBhyveProcessBuildBhyveCmd example_library example_host full_driver example_def False =
     (Inr \<lparr>cmd_binary = BHYVE,
           cmd_args =
             [''-c'', ''2'', ''-m'', ''256'', ''-H'', ''-P'', ''-s'', ''0:0,hostbridge'',
              ''-s'', ''1:0,virtio-net,tap7,mac=52:54:00:b9:94:02'',
              ''-s'', ''2:0,virtio-blk,/tmp/freebsd.img'', ''bhyve''],
           cmd_has_error = False\<rparr>,
      example_def\<lparr>def_nets := [bridged_nic\<lparr>net_ifname := Some ''vnet0''\<rparr>]\<rparr>,
      [TapCreateInBridgePort (Some ''virbr0'') ''vnet%d'', TapGetRealDeviceName ''vnet0'',
       NetDevSetOnline ''vnet0''])"
  by code_simp

section \<open>The SATA controller\<close>

text \<open>One step of the loop, for a disk that is skipped, taken or refused.\<close>

lemma ahci_disks_skip:
  "\<not> ahci_bound controller disk \<Longrightarrow>
     ahci_disks L driver controller (disk # rest) =
       (fst (ahci_disks L driver controller rest),
        disk # snd (ahci_disks L driver controller rest))"
  by (auto simp: ahci_bound_def split: prod.splits)

lemma ahci_disks_take:
  assumes "ahci_bound controller disk" and "\<not> ahci_refused L disk"
    and "virDomainDiskTranslateSourcePool L (disk_src disk) = Some src"
  shows "fst (ahci_disks L driver controller (disk # rest)) =
           (case fst (ahci_disks L driver controller rest) of
              Inl e \<Rightarrow> Inl e
            | Inr buf \<Rightarrow> Inr (ahci_fragment L driver disk @ buf))"
proof -
  from assms(2) have fv: "file_or_volume disk"
    by (simp add: ahci_refused_def split: if_splits)
  with assms(2,3) have dev: "disk_device disk \<noteq> VIR_DOMAIN_DISK_DEVICE_OTHER"
    and cd: "disk_device disk = VIR_DOMAIN_DISK_DEVICE_CDROM \<Longrightarrow> src_path src \<noteq> None"
    by (auto simp: ahci_refused_def translated_path_def)
  show ?thesis
  proof (cases "disk_device disk")
    case VIR_DOMAIN_DISK_DEVICE_DISK
    then show ?thesis using assms(1,3) fv
      by (cases "ahci_disks L driver controller rest";
          cases "fst (ahci_disks L driver controller rest)")
         (auto simp: ahci_bound_def file_or_volume_def ahci_fragment_def translated_path_def
                     Let_def)
  next
    case VIR_DOMAIN_DISK_DEVICE_CDROM
    then show ?thesis using assms(1,3) fv cd
      by (cases "ahci_disks L driver controller rest";
          cases "fst (ahci_disks L driver controller rest)")
         (auto simp: ahci_bound_def file_or_volume_def ahci_fragment_def translated_path_def
                     Let_def)
  next
    case VIR_DOMAIN_DISK_DEVICE_OTHER
    with dev show ?thesis by simp
  qed
qed

lemma ahci_disks_refuse:
  assumes "ahci_bound controller disk" and "ahci_refused L disk"
    and "file_or_volume disk \<longrightarrow> virDomainDiskTranslateSourcePool L (disk_src disk) \<noteq> None"
  shows "\<exists>msg. fst (ahci_disks L driver controller (disk # rest)) =
           Inl (VIR_ERR_CONFIG_UNSUPPORTED, msg)"
proof (cases "file_or_volume disk")
  case False
  then show ?thesis using assms(1)
    by (auto simp: ahci_bound_def file_or_volume_def)
next
  case True
  with assms(3) obtain src where
    src: "virDomainDiskTranslateSourcePool L (disk_src disk) = Some src"
    by auto
  from assms(2) True src have
    "(disk_device disk = VIR_DOMAIN_DISK_DEVICE_CDROM \<and> src_path src = None) \<or>
     disk_device disk = VIR_DOMAIN_DISK_DEVICE_OTHER"
    by (auto simp: ahci_refused_def translated_path_def)
  then show ?thesis using assms(1) True src
    by (auto simp: ahci_bound_def file_or_volume_def Let_def)
qed

declare ahci_disks.simps(2) [simp del]

lemma ahci_disks_accepted:
  "\<forall>disk\<in>set disks. ahci_bound controller disk \<and> file_or_volume disk \<longrightarrow>
       virDomainDiskTranslateSourcePool L (disk_src disk) \<noteq> None \<Longrightarrow>
   \<forall>disk\<in>set disks. ahci_bound controller disk \<longrightarrow> \<not> ahci_refused L disk \<Longrightarrow>
   fst (ahci_disks L driver controller disks) =
     Inr (concat (map (ahci_fragment L driver) (filter (ahci_bound controller) disks)))"
proof (induction disks)
  case Nil
  then show ?case by simp
next
  case (Cons disk rest)
  then have IH: "fst (ahci_disks L driver controller rest) =
     Inr (concat (map (ahci_fragment L driver) (filter (ahci_bound controller) rest)))"
    by simp
  show ?case
  proof (cases "ahci_bound controller disk")
    case False
    then show ?thesis using IH by (simp add: ahci_disks_skip)
  next
    case True
    with Cons.prems have nr: "\<not> ahci_refused L disk" by simp
    then have "file_or_volume disk" by (simp add: ahci_refused_def split: if_splits)
    with True Cons.prems obtain src where
      "virDomainDiskTranslateSourcePool L (disk_src disk) = Some src"
      by auto
    from ahci_disks_take [OF True nr this] IH True show ?thesis by simp
  qed
qed

lemma ahci_disks_refused:
  "\<forall>disk\<in>set disks. ahci_bound controller disk \<and> file_or_volume disk \<longrightarrow>
       virDomainDiskTranslateSourcePool L (disk_src disk) \<noteq> None \<Longrightarrow>
   \<exists>disk\<in>set disks. ahci_bound controller disk \<and> ahci_refused L disk \<Longrightarrow>
   \<exists>msg. fst (ahci_disks L driver controller disks) = Inl (VIR_ERR_CONFIG_UNSUPPORTED, msg)"
proof (induction disks)
  case Nil
  then show ?case by simp
next
  case (Cons disk rest)
  show ?case
  proof (cases "ahci_bound controller disk \<and> ahci_refused L disk")
    case True
    with Cons.prems(1) show ?thesis by (intro ahci_disks_refuse) auto
  next
    case False
    with Cons.prems have "\<exists>d\<in>set rest. ahci_bound controller d \<and> ahci_refused L d" by auto
    with Cons obtain msg where
      IH: "fst (ahci_disks L driver controller rest) = Inl (VIR_ERR_CONFIG_UNSUPPORTED, msg)"
      by auto
    show ?thesis
    proof (cases "ahci_bound controller disk")
      case unbound: False
      then show ?thesis using IH by (simp add: ahci_disks_skip)
    next
      case True
      with False have nr: "\<not> ahci_refused L disk" by simp
      then have "file_or_volume disk" by (simp add: ahci_refused_def split: if_splits)
      with True Cons.prems obtain src where
        "virDomainDiskTranslateSourcePool L (disk_src disk) = Some src"
        by auto
      from ahci_disks_take [OF True nr this] IH show ?thesis by simp
    qed
  qed
qed

lemma ahci_disks_unbound:
  "\<forall>disk\<in>set disks. \<not> ahci_bound controller disk \<Longrightarrow>
     ahci_disks L driver controller disks = (Inr [], disks)"
  by (induction disks) (simp_all add: ahci_disks_skip)

text \<open>Where the translation of the source fails.\<close>

lemma ahci_disks_fail_translation:
  assumes "ahci_bound controller disk" and "file_or_volume disk"
    and "virDomainDiskTranslateSourcePool L (disk_src disk) = None"
  shows "fst (ahci_disks L driver controller (disk # rest)) = Inl (VIR_ERR_FROM_CALLEE, [])"
  using assms
  by (auto simp: ahci_disks.simps(2) ahci_bound_def file_or_volume_def)

lemma ahci_disks_prefix:
  "\<forall>x\<in>set pre. ahci_bound controller x \<longrightarrow>
      \<not> ahci_refused L x \<and> virDomainDiskTranslateSourcePool L (disk_src x) \<noteq> None \<Longrightarrow>
   fst (ahci_disks L driver controller (pre @ rest)) =
     (case fst (ahci_disks L driver controller rest) of
        Inl e \<Rightarrow> Inl e
      | Inr buf \<Rightarrow>
          Inr (concat (map (ahci_fragment L driver) (filter (ahci_bound controller) pre)) @ buf))"
proof (induction pre)
  case Nil
  then show ?case by (simp split: sum.splits)
next
  case (Cons disk pre)
  then have IH: "fst (ahci_disks L driver controller (pre @ rest)) =
     (case fst (ahci_disks L driver controller rest) of
        Inl e \<Rightarrow> Inl e
      | Inr buf \<Rightarrow>
          Inr (concat (map (ahci_fragment L driver) (filter (ahci_bound controller) pre)) @ buf))"
    by simp
  show ?case
  proof (cases "ahci_bound controller disk")
    case False
    then show ?thesis using IH by (simp add: ahci_disks_skip split: sum.splits)
  next
    case True
    with Cons.prems have nr: "\<not> ahci_refused L disk"
      and "virDomainDiskTranslateSourcePool L (disk_src disk) \<noteq> None"
      by simp_all
    then obtain src where "virDomainDiskTranslateSourcePool L (disk_src disk) = Some src"
      by auto
    from ahci_disks_take [OF True nr this, of driver "pre @ rest"] IH True show ?thesis
      by (simp split: sum.splits)
  qed
qed

lemma ahci_disks_translation_fails_first:
  assumes "\<forall>x\<in>set pre. ahci_bound controller x \<longrightarrow>
      \<not> ahci_refused L x \<and> virDomainDiskTranslateSourcePool L (disk_src x) \<noteq> None"
    and "ahci_bound controller disk" and "file_or_volume disk"
    and "virDomainDiskTranslateSourcePool L (disk_src disk) = None"
  shows "fst (ahci_disks L driver controller (pre @ disk # post)) = Inl (VIR_ERR_FROM_CALLEE, [])"
  by (simp add: ahci_disks_prefix [OF assms(1)] ahci_disks_fail_translation [OF assms(2-4)])

lemma ahci_disks_translation_fails:
  "\<exists>disk\<in>set disks. ahci_bound controller disk \<and> file_or_volume disk \<and>
      virDomainDiskTranslateSourcePool L (disk_src disk) = None \<Longrightarrow>
   \<exists>e. fst (ahci_disks L driver controller disks) = Inl e"
proof (induction disks)
  case Nil
  then show ?case by simp
next
  case (Cons disk rest)
  show ?case
  proof (cases "ahci_bound controller disk")
    case False
    with Cons.prems have "\<exists>d\<in>set rest. ahci_bound controller d \<and> file_or_volume d \<and>
      virDomainDiskTranslateSourcePool L (disk_src d) = None" by auto
    with Cons.IH False show ?thesis by (simp add: ahci_disks_skip)
  next
    case bound: True
    show ?thesis
    proof (cases "file_or_volume disk \<and> virDomainDiskTranslateSourcePool L (disk_src disk) = None")
      case True
      with bound ahci_disks_fail_translation [of controller disk L driver rest]
      show ?thesis by simp
    next
      case ok: False
      show ?thesis
      proof (cases "ahci_refused L disk")
        case True
        from ahci_disks_refuse [OF bound True, of driver rest] ok show ?thesis by auto
      next
        case False
        with ok have "virDomainDiskTranslateSourcePool L (disk_src disk) \<noteq> None"
          by (auto simp: ahci_refused_def split: if_splits)
        then obtain src where
          src: "virDomainDiskTranslateSourcePool L (disk_src disk) = Some src" by auto
        from ok src Cons.prems have "\<exists>d\<in>set rest. ahci_bound controller d \<and> file_or_volume d \<and>
          virDomainDiskTranslateSourcePool L (disk_src d) = None" by auto
        with Cons.IH obtain e where "fst (ahci_disks L driver controller rest) = Inl e" by auto
        with ahci_disks_take [OF bound False src, of driver rest] show ?thesis by simp
      qed
    qed
  qed
qed

text \<open>Evaluation of the loop on a list that is given.\<close>

lemmas ahci_eval =
  ahci_disks.simps(2) bhyveBuildAHCIControllerArgStr_def bhyveBuildControllerArgStr_def
  ahci_bound_def ahci_refused_def ahci_fragment_def file_or_volume_def translated_path_def
  Let_def

text \<open>
  Claim C5, as amended.  Take a SATA controller and the disks bound to it, in the order of
  the configuration.  Let first the translation of the source succeed for every bound
  disk whose storage backing is a plain file or a managed volume.  If a bound disk has
  another storage backing, or is a CD-ROM without a source path, or is neither a disk nor
  a CD-ROM, the formatter fails with \<open>VIR_ERR_CONFIG_UNSUPPORTED\<close> and no argument.
  Otherwise it returns the one entry \<^verbatim>\<open>-s <slot>:0,ahci...\<close>, where the text after
  \<^verbatim>\<open>ahci\<close> is made of one fragment for each bound disk: \<^verbatim>\<open>,hd:<path>\<close> or
  \<^verbatim>\<open>,cd:<path>\<close> with the 32-slot capability, \<^verbatim>\<open>-hd,<path>\<close> or \<^verbatim>\<open>-cd,<path>\<close>
  without it.  Let now the translation fail for some bound disk with a file or a volume
  behind it.  Then the formatter fails and returns no argument; and the error is the one
  the translation reported when every bound disk before that one is translated and is
  not refused on one of the three grounds.
\<close>

theorem ahci_controller_args:
  "((\<forall>disk\<in>set disks. ahci_bound controller disk \<and> file_or_volume disk \<longrightarrow>
        virDomainDiskTranslateSourcePool L (disk_src disk) \<noteq> None) \<longrightarrow>
      ((\<exists>disk\<in>set disks. ahci_bound controller disk \<and> ahci_refused L disk) \<longrightarrow>
         (\<exists>msg. fst (bhyveBuildAHCIControllerArgStr L driver controller disks) =
                  Inl (VIR_ERR_CONFIG_UNSUPPORTED, msg))) \<and>
      ((\<forall>disk\<in>set disks. ahci_bound controller disk \<longrightarrow> \<not> ahci_refused L disk) \<longrightarrow>
         fst (bhyveBuildAHCIControllerArgStr L driver controller disks) =
           Inr [''-s'',
                fmt_d (ctl_slot controller) @ '':0,ahci'' @
                  concat (map (ahci_fragment L driver)
                            (filter (ahci_bound controller) disks))])) \<and>
   ((\<exists>disk\<in>set disks. ahci_bound controller disk \<and> file_or_volume disk \<and>
        virDomainDiskTranslateSourcePool L (disk_src disk) = None) \<longrightarrow>
      (\<exists>e. fst (bhyveBuildAHCIControllerArgStr L driver controller disks) = Inl e)) \<and>
   (\<forall>pre disk post.
      disks = pre @ disk # post \<and>
      (\<forall>x\<in>set pre. ahci_bound controller x \<longrightarrow>
         \<not> ahci_refused L x \<and> virDomainDiskTranslateSourcePool L (disk_src x) \<noteq> None) \<and>
      ahci_bound controller disk \<and> file_or_volume disk \<and>
      virDomainDiskTranslateSourcePool L (disk_src disk) = None \<longrightarrow>
      fst (bhyveBuildAHCIControllerArgStr L driver controller disks) =
        Inl (VIR_ERR_FROM_CALLEE, []))"
proof -
  have formatter: "fst (bhyveBuildAHCIControllerArgStr L driver controller ds) =
      (case fst (ahci_disks L driver controller ds) of
         Inl e \<Rightarrow> Inl e
       | Inr buf \<Rightarrow> Inr [''-s'', fmt_d (ctl_slot controller) @ '':0,ahci'' @ buf])" for ds
    by (simp add: bhyveBuildAHCIControllerArgStr_def split: prod.splits sum.splits)
  have "\<exists>msg. fst (bhyveBuildAHCIControllerArgStr L driver controller disks) =
                  Inl (VIR_ERR_CONFIG_UNSUPPORTED, msg)"
    if "\<forall>disk\<in>set disks. ahci_bound controller disk \<and> file_or_volume disk \<longrightarrow>
          virDomainDiskTranslateSourcePool L (disk_src disk) \<noteq> None"
      and "\<exists>disk\<in>set disks. ahci_bound controller disk \<and> ahci_refused L disk"
    using ahci_disks_refused [OF that, of driver] by (auto simp: formatter)
  moreover
  have "fst (bhyveBuildAHCIControllerArgStr L driver controller disks) =
           Inr [''-s'',
                fmt_d (ctl_slot controller) @ '':0,ahci'' @
                  concat (map (ahci_fragment L driver)
                            (filter (ahci_bound controller) disks))]"
    if "\<forall>disk\<in>set disks. ahci_bound controller disk \<and> file_or_volume disk \<longrightarrow>
          virDomainDiskTranslateSourcePool L (disk_src disk) \<noteq> None"
      and "\<forall>disk\<in>set disks. ahci_bound controller disk \<longrightarrow> \<not> ahci_refused L disk"
    using ahci_disks_accepted [OF that, of driver] by (simp add: formatter)
  moreover
  have "\<exists>e. fst (bhyveBuildAHCIControllerArgStr L driver controller disks) = Inl e"
    if "\<exists>disk\<in>set disks. ahci_bound controller disk \<and> file_or_volume disk \<and>
          virDomainDiskTranslateSourcePool L (disk_src disk) = None"
    using ahci_disks_translation_fails [OF that, of driver] by (auto simp: formatter)
  moreover
  have "fst (bhyveBuildAHCIControllerArgStr L driver controller disks) =
          Inl (VIR_ERR_FROM_CALLEE, [])"
    if "disks = pre @ disk # post"
      and "\<forall>x\<in>set pre. ahci_bound controller x \<longrightarrow>
         \<not> ahci_refused L x \<and> virDomainDiskTranslateSourcePool L (disk_src x) \<noteq> None"
      and "ahci_bound controller disk" and "file_or_volume disk"
      and "virDomainDiskTranslateSourcePool L (disk_src disk) = None"
    for pre disk post
    using ahci_disks_translation_fails_first [OF that(2-5), of driver post] that(1)
    by (simp add: formatter)
  ultimately show ?thesis by blast
qed

theorem ahci_controller_args_witness:
  "fst (bhyveBuildAHCIControllerArgStr example_library full_driver sata_controller
          [file_disk VIR_DOMAIN_DISK_BUS_SATA VIR_DOMAIN_DISK_DEVICE_CDROM ''/cd.iso'',
           file_disk VIR_DOMAIN_DISK_BUS_VIRTIO VIR_DOMAIN_DISK_DEVICE_DISK ''/v.img'',
           volume_disk VIR_DOMAIN_DISK_BUS_SATA VIR_DOMAIN_DISK_DEVICE_DISK ''vol0'']) =
     Inr [''-s'', ''2:0,ahci,cd:/cd.iso,hd:/pool/vol0''] \<and>
   fst (bhyveBuildAHCIControllerArgStr example_library bare_driver sata_controller
          [file_disk VIR_DOMAIN_DISK_BUS_SATA VIR_DOMAIN_DISK_DEVICE_CDROM ''/cd.iso'',
           file_disk VIR_DOMAIN_DISK_BUS_VIRTIO VIR_DOMAIN_DISK_DEVICE_DISK ''/v.img'',
           volume_disk VIR_DOMAIN_DISK_BUS_SATA VIR_DOMAIN_DISK_DEVICE_DISK ''vol0'']) =
     Inr [''-s'', ''2:0,ahci-cd,/cd.iso-hd,/pool/vol0''] \<and>
   (\<exists>msg. fst (bhyveBuildAHCIControllerArgStr example_library full_driver sata_controller
                  [file_disk VIR_DOMAIN_DISK_BUS_SATA VIR_DOMAIN_DISK_DEVICE_DISK ''/hd.img'',
                   empty_cdrom]) =
           Inl (VIR_ERR_CONFIG_UNSUPPORTED, msg)) \<and>
   (\<exists>e. fst (bhyveBuildAHCIControllerArgStr pool_down_library full_driver sata_controller
                [empty_cdrom,
                 volume_disk VIR_DOMAIN_DISK_BUS_SATA VIR_DOMAIN_DISK_DEVICE_DISK ''vol0'']) =
         Inl e) \<and>
   fst (bhyveBuildAHCIControllerArgStr pool_down_library full_driver sata_controller
          [empty_cdrom,
           volume_disk VIR_DOMAIN_DISK_BUS_SATA VIR_DOMAIN_DISK_DEVICE_DISK ''vol0'']) =
     Inl (VIR_ERR_CONFIG_UNSUPPORTED, ''cdrom device without source path not supported'') \<and>
   fst (bhyveBuildAHCIControllerArgStr pool_down_library full_driver sata_controller
          [file_disk VIR_DOMAIN_DISK_BUS_SATA VIR_DOMAIN_DISK_DEVICE_DISK ''/hd.img'',
           volume_disk VIR_DOMAIN_DISK_BUS_SATA VIR_DOMAIN_DISK_DEVICE_DISK ''vol0'']) =
     Inl (VIR_ERR_FROM_CALLEE, [])"
proof -
  let ?mixed = "[file_disk VIR_DOMAIN_DISK_BUS_SATA VIR_DOMAIN_DISK_DEVICE_CDROM ''/cd.iso'',
           file_disk VIR_DOMAIN_DISK_BUS_VIRTIO VIR_DOMAIN_DISK_DEVICE_DISK ''/v.img'',
           volume_disk VIR_DOMAIN_DISK_BUS_SATA VIR_DOMAIN_DISK_DEVICE_DISK ''vol0'']"
  let ?hd = "file_disk VIR_DOMAIN_DISK_BUS_SATA VIR_DOMAIN_DISK_DEVICE_DISK ''/hd.img''"
  let ?vol = "volume_disk VIR_DOMAIN_DISK_BUS_SATA VIR_DOMAIN_DISK_DEVICE_DISK ''vol0''"
  from ahci_controller_args [of ?mixed sata_controller example_library full_driver]
  have "fst (bhyveBuildAHCIControllerArgStr example_library full_driver sata_controller ?mixed) =
     Inr [''-s'', ''2:0,ahci,cd:/cd.iso,hd:/pool/vol0'']"
    by (simp add: example_defs fmt_defs cap_defs ahci_bound_def ahci_refused_def
          ahci_fragment_def file_or_volume_def translated_path_def)
  moreover
  from ahci_controller_args [of ?mixed sata_controller example_library bare_driver]
  have "fst (bhyveBuildAHCIControllerArgStr example_library bare_driver sata_controller ?mixed) =
     Inr [''-s'', ''2:0,ahci-cd,/cd.iso-hd,/pool/vol0'']"
    by (simp add: example_defs fmt_defs cap_defs ahci_bound_def ahci_refused_def
          ahci_fragment_def file_or_volume_def translated_path_def)
  moreover
  from ahci_controller_args [of "[?hd, empty_cdrom]" sata_controller example_library full_driver]
  have "\<exists>msg. fst (bhyveBuildAHCIControllerArgStr example_library full_driver sata_controller
                  [?hd, empty_cdrom]) = Inl (VIR_ERR_CONFIG_UNSUPPORTED, msg)"
    by (simp add: example_defs ahci_bound_def ahci_refused_def file_or_volume_def
          translated_path_def)
  moreover
  from ahci_controller_args [of "[empty_cdrom, ?vol]" sata_controller pool_down_library
         full_driver]
  have "\<exists>e. fst (bhyveBuildAHCIControllerArgStr pool_down_library full_driver sata_controller
                [empty_cdrom, ?vol]) = Inl e"
    by (simp add: example_defs ahci_bound_def file_or_volume_def)
  moreover
  have "fst (bhyveBuildAHCIControllerArgStr pool_down_library full_driver sata_controller
          [empty_cdrom, ?vol]) =
     Inl (VIR_ERR_CONFIG_UNSUPPORTED, ''cdrom device without source path not supported'')"
    by (simp add: example_defs ahci_eval)
  moreover
  from ahci_controller_args [of "[?hd, ?vol]" sata_controller pool_down_library full_driver,
         THEN conjunct2, THEN conjunct2, rule_format, of "[?hd]" ?vol "[]"]
  have "fst (bhyveBuildAHCIControllerArgStr pool_down_library full_driver sata_controller
          [?hd, ?vol]) = Inl (VIR_ERR_FROM_CALLEE, [])"
    by (simp add: example_defs ahci_bound_def ahci_refused_def file_or_volume_def
          translated_path_def)
  ultimately show ?thesis by blast
qed

text \<open>
  The claim as it was stated fails where the translation of the source fails: the disk
  below is a managed volume and a plain disk, none of the three grounds applies to it,
  and yet the formatter returns no argument.  The error is the one the translation
  reported.
\<close>

theorem ahci_controller_translation_counterexample:
  "ahci_bound sata_controller
     (volume_disk VIR_DOMAIN_DISK_BUS_SATA VIR_DOMAIN_DISK_DEVICE_DISK ''vol0'') \<and>
   \<not> ahci_refused pool_down_library
     (volume_disk VIR_DOMAIN_DISK_BUS_SATA VIR_DOMAIN_DISK_DEVICE_DISK ''vol0'') \<and>
   fst (bhyveBuildAHCIControllerArgStr pool_down_library full_driver sata_controller
          [volume_disk VIR_DOMAIN_DISK_BUS_SATA VIR_DOMAIN_DISK_DEVICE_DISK ''vol0'']) =
     Inl (VIR_ERR_FROM_CALLEE, [])"
  by (simp add: example_defs ahci_eval)

section \<open>The console\<close>

text \<open>
  Claim C2, as amended.  The console formatter looks at the first serial device only.
  It refuses every transport kind but nmdm with \<open>VIR_ERR_CONFIG_UNSUPPORTED\<close>; for an
  nmdm device it maps the port index 0 to \<^verbatim>\<open>com1\<close> and the port index 1 to \<^verbatim>\<open>com2\<close>, and
  it refuses every port index above 2 with \<open>VIR_ERR_CONFIG_UNSUPPORTED\<close>.
\<close>

theorem console_first_nmdm_port:
  "def_serials def = chr # rest \<Longrightarrow>
     bhyveBuildConsoleArgStr def = bhyveBuildConsoleArgStr (def\<lparr>def_serials := [chr]\<rparr>) \<and>
     (chr_source_type chr \<noteq> VIR_DOMAIN_CHR_TYPE_NMDM \<longrightarrow>
        bhyveBuildConsoleArgStr def =
          Inl (VIR_ERR_CONFIG_UNSUPPORTED, ''only nmdm console types are supported'')) \<and>
     (chr_source_type chr = VIR_DOMAIN_CHR_TYPE_NMDM \<and> chr_target_port chr = 0 \<longrightarrow>
        bhyveBuildConsoleArgStr def = Inr [''-l'', ''com1,'' @ fmt_s (chr_source_path chr)]) \<and>
     (chr_source_type chr = VIR_DOMAIN_CHR_TYPE_NMDM \<and> chr_target_port chr = 1 \<longrightarrow>
        bhyveBuildConsoleArgStr def = Inr [''-l'', ''com2,'' @ fmt_s (chr_source_path chr)]) \<and>
     (chr_source_type chr = VIR_DOMAIN_CHR_TYPE_NMDM \<and> chr_target_port chr > 2 \<longrightarrow>
        bhyveBuildConsoleArgStr def =
          Inl (VIR_ERR_CONFIG_UNSUPPORTED, ''only two serial ports are supported''))"
  by (simp add: bhyveBuildConsoleArgStr_def fmt_defs)

theorem console_first_nmdm_port_witness:
  "bhyveBuildConsoleArgStr
     (example_def\<lparr>def_serials := [nmdm_serial 0, nmdm_serial 7]\<rparr>) =
     Inr [''-l'', ''com1,/dev/nmdm0A''] \<and>
   bhyveBuildConsoleArgStr (example_def\<lparr>def_serials := [nmdm_serial 1]\<rparr>) =
     Inr [''-l'', ''com2,/dev/nmdm0A''] \<and>
   bhyveBuildConsoleArgStr (example_def\<lparr>def_serials := [nmdm_serial 3]\<rparr>) =
     Inl (VIR_ERR_CONFIG_UNSUPPORTED, ''only two serial ports are supported'') \<and>
   bhyveBuildConsoleArgStr
     (example_def\<lparr>def_serials := [(nmdm_serial 1)\<lparr>chr_source_type := VIR_DOMAIN_CHR_TYPE_OTHER\<rparr>]\<rparr>) =
     Inl (VIR_ERR_CONFIG_UNSUPPORTED, ''only nmdm console types are supported'')"
  using console_first_nmdm_port [of "example_def\<lparr>def_serials := [nmdm_serial 0, nmdm_serial 7]\<rparr>"
           "nmdm_serial 0" "[nmdm_serial 7]"]
        console_first_nmdm_port [of "example_def\<lparr>def_serials := [nmdm_serial 1]\<rparr>"
           "nmdm_serial 1" "[]"]
        console_first_nmdm_port [of "example_def\<lparr>def_serials := [nmdm_serial 3]\<rparr>"
           "nmdm_serial 3" "[]"]
        console_first_nmdm_port [of
           "example_def\<lparr>def_serials := [(nmdm_serial 1)\<lparr>chr_source_type := VIR_DOMAIN_CHR_TYPE_OTHER\<rparr>]\<rparr>"
           "(nmdm_serial 1)\<lparr>chr_source_type := VIR_DOMAIN_CHR_TYPE_OTHER\<rparr>" "[]"]
  by (simp add: bhyveBuildConsoleArgStr_def nmdm_serial_def fmt_defs)

text \<open>
  The claim as it was stated says that every port index other than 1 and 2 is refused.
  The port index 0 is accepted, and it is the one mapped to \<^verbatim>\<open>com1\<close>.
\<close>

theorem console_port_0_counterexample:
  "bhyveBuildConsoleArgStr (example_def\<lparr>def_serials := [nmdm_serial 0]\<rparr>) =
     Inr [''-l'', ''com1,/dev/nmdm0A'']"
  by (simp add: bhyveBuildConsoleArgStr_def example_defs fmt_defs)

text \<open>
  The port index 2 passes the test \<^verbatim>\<open>port > 2\<close> and is given the name \<^verbatim>\<open>com3\<close>, against the
  comment of line 149, which knows two ports only.
\<close>

lemma console_port_2_is_com3:
  "bhyveBuildConsoleArgStr (example_def\<lparr>def_serials := [nmdm_serial 2]\<rparr>) =
     Inr [''-l'', ''com3,/dev/nmdm0A'']"
  by (simp add: bhyveBuildConsoleArgStr_def example_defs fmt_defs)

section \<open>The leading arguments of the command\<close>

lemma bhyveCPUArgs_error:
  "bhyveCPUArgs driver def = Inl e \<Longrightarrow> \<exists>msg. e = (VIR_ERR_CONFIG_UNSUPPORTED, msg)"
  by (auto simp: bhyveCPUArgs_def Let_def split: option.splits if_splits)

lemma bhyveClockArgs_error:
  "bhyveClockArgs driver def = Inl e \<Longrightarrow> \<exists>msg. e = (VIR_ERR_CONFIG_UNSUPPORTED, msg)"
  by (auto simp: bhyveClockArgs_def split: virDomainClockOffsetType.splits if_splits)

lemma build_cpu_error:
  "bhyveCPUArgs driver def = Inl e \<Longrightarrow>
     virBhyveProcessBuildBhyveCmd L H driver def dryRun = (Inl e, def, [])"
  by (simp add: virBhyveProcessBuildBhyveCmd_def bhyveBuildHead_def)

lemma build_clock_error:
  "bhyveCPUArgs driver def = Inr cpu \<Longrightarrow> bhyveClockArgs driver def = Inl e \<Longrightarrow>
     virBhyveProcessBuildBhyveCmd L H driver def dryRun = (Inl e, def, [])"
  by (simp add: virBhyveProcessBuildBhyveCmd_def bhyveBuildHead_def)

lemma head_args:
  "bhyveBuildHead L H driver def dryRun = (Inr args, def1, log1) \<Longrightarrow>
     \<exists>cpu clock rest.
        bhyveCPUArgs driver def = Inr cpu \<and> bhyveClockArgs driver def = Inr clock \<and>
        args = cpu @ bhyveMemoryArgs def @ bhyveOptionArgs def @ clock @ bhyveFixedArgs @ rest"
  by (auto simp: bhyveBuildHead_def split: sum.splits prod.splits)

lemma build_args:
  "fst (virBhyveProcessBuildBhyveCmd L H driver def dryRun) = Inr cmd \<Longrightarrow>
     \<exists>cpu clock rest.
        bhyveCPUArgs driver def = Inr cpu \<and> bhyveClockArgs driver def = Inr clock \<and>
        cmd_args cmd =
          cpu @ bhyveMemoryArgs def @ bhyveOptionArgs def @ clock @ bhyveFixedArgs @ rest"
proof -
  assume a: "fst (virBhyveProcessBuildBhyveCmd L H driver def dryRun) = Inr cmd"
  obtain r def1 log1 where h: "bhyveBuildHead L H driver def dryRun = (r, def1, log1)"
    by (cases "bhyveBuildHead L H driver def dryRun") auto
  with a obtain args where r: "r = Inr args"
    by (cases r) (auto simp: virBhyveProcessBuildBhyveCmd_def)
  from head_args [OF h [unfolded r]] obtain cpu clock rest where
    c: "bhyveCPUArgs driver def = Inr cpu" "bhyveClockArgs driver def = Inr clock"
       "args = cpu @ bhyveMemoryArgs def @ bhyveOptionArgs def @ clock @ bhyveFixedArgs @ rest"
    by blast
  from a h r have "\<exists>more. cmd_args cmd = args @ more"
    by (auto simp: virBhyveProcessBuildBhyveCmd_def virCommandAddArgs_New
             split: sum.splits prod.splits)
  with c show ?thesis by auto
qed

text \<open>
  What the check of the topology does: with sockets set, the build fails with
  \<open>VIR_ERR_CONFIG_UNSUPPORTED\<close> when dies is not 1, when the product of sockets, cores
  and threads taken modulo \<open>2 ^ 32\<close> differs from the vCPU count, or when the capability
  is missing; otherwise the combined argument is added.  Without a topology the vCPU
  count alone is added.
\<close>

lemma cpu_topology_checked:
  assumes "def_cpu def = Some cpu" and "cpu_sockets cpu \<noteq> 0"
  shows "(cpu_dies cpu \<noteq> 1 \<or>
          def_vcpus def \<noteq> cpu_sockets cpu * cpu_cores cpu * cpu_threads cpu \<or>
          \<not> has_cap (bhyvecaps driver) BHYVE_CAP_CPUTOPOLOGY \<longrightarrow>
            (\<exists>msg. virBhyveProcessBuildBhyveCmd L H driver def dryRun =
                     (Inl (VIR_ERR_CONFIG_UNSUPPORTED, msg), def, []))) \<and>
         (cpu_dies cpu = 1 \<and>
          def_vcpus def = cpu_sockets cpu * cpu_cores cpu * cpu_threads cpu \<and>
          has_cap (bhyvecaps driver) BHYVE_CAP_CPUTOPOLOGY \<longrightarrow>
            bhyveCPUArgs driver def =
              Inr [''-c'',
                   ''cpus='' @ fmt_d (def_vcpus def) @ '',sockets='' @ fmt_d (cpu_sockets cpu) @
                   '',cores='' @ fmt_d (cpu_cores cpu) @
                   '',threads='' @ fmt_d (cpu_threads cpu)])"
proof (intro conjI impI)
  assume "cpu_dies cpu \<noteq> 1 \<or>
          def_vcpus def \<noteq> cpu_sockets cpu * cpu_cores cpu * cpu_threads cpu \<or>
          \<not> has_cap (bhyvecaps driver) BHYVE_CAP_CPUTOPOLOGY"
  with assms have "\<exists>msg. bhyveCPUArgs driver def = Inl (VIR_ERR_CONFIG_UNSUPPORTED, msg)"
    by (auto simp: bhyveCPUArgs_def Let_def)
  then show "\<exists>msg. virBhyveProcessBuildBhyveCmd L H driver def dryRun =
                     (Inl (VIR_ERR_CONFIG_UNSUPPORTED, msg), def, [])"
    by (auto simp: build_cpu_error)
next
  assume "cpu_dies cpu = 1 \<and>
          def_vcpus def = cpu_sockets cpu * cpu_cores cpu * cpu_threads cpu \<and>
          has_cap (bhyvecaps driver) BHYVE_CAP_CPUTOPOLOGY"
  with assms show "bhyveCPUArgs driver def =
              Inr [''-c'',
                   ''cpus='' @ fmt_d (def_vcpus def) @ '',sockets='' @ fmt_d (cpu_sockets cpu) @
                   '',cores='' @ fmt_d (cpu_cores cpu) @
                   '',threads='' @ fmt_d (cpu_threads cpu)]"
    by (simp add: bhyveCPUArgs_def Let_def)
qed

lemma cpu_without_topology:
  "def_cpu def = None \<or> (\<exists>cpu. def_cpu def = Some cpu \<and> cpu_sockets cpu = 0) \<Longrightarrow>
     bhyveCPUArgs driver def = Inr [''-c'', fmt_d (def_vcpus def)]"
  by (auto simp: bhyveCPUArgs_def Let_def)

text \<open>
  Claim C3 says that the build fails whenever the product of sockets, cores and threads
  is not the vCPU count.  The product is formed in \<^verbatim>\<open>unsigned int\<close> and wraps: for 2
  vCPUs and the topology above, whose product is 4294967298, the comparison of line 565
  finds 2 on both sides, and the build returns a command with the topology argument.
\<close>

theorem cpu_topology_product_wraps:
  "unat (cpu_sockets wrapping_cpu) * unat (cpu_cores wrapping_cpu) *
     unat (cpu_threads wrapping_cpu) = 4294967298 \<and>
   unat (def_vcpus example_def) = 2 \<and>
   fst (virBhyveProcessBuildBhyveCmd example_library example_host full_driver
          (example_def\<lparr>def_cpu := Some wrapping_cpu\<rparr>) True) =
     Inr \<lparr>cmd_binary = BHYVE,
          cmd_args =
            [''-c'', ''cpus=2,sockets=2,cores=-2147483647,threads=1'', ''-m'', ''256'',
             ''-H'', ''-P'', ''-s'', ''0:0,hostbridge'',
             ''-s'', ''1:0,virtio-net,tap0,mac=52:54:00:b9:94:02'',
             ''-s'', ''2:0,virtio-blk,/tmp/freebsd.img'', ''bhyve''],
          cmd_has_error = False\<rparr>"
proof -
  have "fst (virBhyveProcessBuildBhyveCmd example_library example_host full_driver
          (example_def\<lparr>def_cpu := Some wrapping_cpu\<rparr>) True) =
     Inr \<lparr>cmd_binary = BHYVE,
          cmd_args =
            [''-c'', ''cpus='' @ fmt_d 2 @ '',sockets='' @ fmt_d 2 @ '',cores='' @
                     fmt_d 2147483649 @ '',threads='' @ fmt_d 1, ''-m'', ''256'',
             ''-H'', ''-P'', ''-s'', ''0:0,hostbridge'',
             ''-s'', ''1:0,virtio-net,tap0,mac=52:54:00:b9:94:02'',
             ''-s'', ''2:0,virtio-blk,/tmp/freebsd.img'', ''bhyve''],
          cmd_has_error = False\<rparr>"
    by (simp add: virBhyveProcessBuildBhyveCmd_def bhyveBuildHead_def bhyveCPUArgs_def
          bhyveClockArgs_def bhyveBootromArgs_def bhyveBuildNetArgStr_def nic_model_def
          net_arg_def bhyveBuildDiskArgStr_def bhyveBuildVirtIODiskArgStr_def
          bhyveBuildGraphics_def bhyveBuildTail_def bhyveBuildConsoleArgStr_def
          bhyveMemoryArgs_def bhyveOptionArgs_def bhyveFixedArgs_def VIR_DIV_UP_def
          virCommandAddArgs_New wrapping_cpu_def example_defs cap_defs Let_def
          fmt_llu_def fmt_s_def string_of_nat.simps digit_char_def
          fmt_d_def [of 1] fmt_d_def [of 2] string_of_int_def)
  then show ?thesis
    by (simp add: wrapping_cpu_def example_def_def fmt_defs)
qed

text \<open>
  Claim C7.  A localtime offset adds no argument.  A UTC offset adds \<^verbatim>\<open>-u\<close> when the
  capability for a UTC clock is there; when it is not, and for every other offset, the
  clock step and with it the whole build fail with \<open>VIR_ERR_CONFIG_UNSUPPORTED\<close>, no
  host service having been called.  In a command that is returned, the arguments of the
  clock step stand between the feature flags and \<^verbatim>\<open>-H\<close>.
\<close>

theorem clock_offset_args:
  "(clock_offset def = VIR_DOMAIN_CLOCK_OFFSET_LOCALTIME \<longrightarrow>
      bhyveClockArgs driver def = Inr []) \<and>
   (clock_offset def = VIR_DOMAIN_CLOCK_OFFSET_UTC \<and>
    has_cap (bhyvecaps driver) BHYVE_CAP_RTC_UTC \<longrightarrow>
      bhyveClockArgs driver def = Inr [''-u'']) \<and>
   (clock_offset def = VIR_DOMAIN_CLOCK_OFFSET_UTC \<and>
    \<not> has_cap (bhyvecaps driver) BHYVE_CAP_RTC_UTC \<or>
    clock_offset def = VIR_DOMAIN_CLOCK_OFFSET_VARIABLE \<or>
    clock_offset def = VIR_DOMAIN_CLOCK_OFFSET_TIMEZONE \<longrightarrow>
      (\<exists>msg. bhyveClockArgs driver def = Inl (VIR_ERR_CONFIG_UNSUPPORTED, msg)) \<and>
      (\<exists>msg. virBhyveProcessBuildBhyveCmd L H driver def dryRun =
               (Inl (VIR_ERR_CONFIG_UNSUPPORTED, msg), def, []))) \<and>
   (\<forall>cmd. fst (virBhyveProcessBuildBhyveCmd L H driver def dryRun) = Inr cmd \<longrightarrow>
      (\<exists>cpu clock rest.
          bhyveCPUArgs driver def = Inr cpu \<and> bhyveClockArgs driver def = Inr clock \<and>
          cmd_args cmd =
            cpu @ bhyveMemoryArgs def @ bhyveOptionArgs def @ clock @ bhyveFixedArgs @ rest))"
proof (intro conjI impI allI)
  show "clock_offset def = VIR_DOMAIN_CLOCK_OFFSET_LOCALTIME \<Longrightarrow>
      bhyveClockArgs driver def = Inr []"
    by (simp add: bhyveClockArgs_def)
  show "clock_offset def = VIR_DOMAIN_CLOCK_OFFSET_UTC \<and>
    has_cap (bhyvecaps driver) BHYVE_CAP_RTC_UTC \<Longrightarrow>
      bhyveClockArgs driver def = Inr [''-u'']"
    by (simp add: bhyveClockArgs_def)
  show "\<And>cmd. fst (virBhyveProcessBuildBhyveCmd L H driver def dryRun) = Inr cmd \<Longrightarrow>
      \<exists>cpu clock rest.
          bhyveCPUArgs driver def = Inr cpu \<and> bhyveClockArgs driver def = Inr clock \<and>
          cmd_args cmd =
            cpu @ bhyveMemoryArgs def @ bhyveOptionArgs def @ clock @ bhyveFixedArgs @ rest"
    by (rule build_args)
next
  assume a: "clock_offset def = VIR_DOMAIN_CLOCK_OFFSET_UTC \<and>
    \<not> has_cap (bhyvecaps driver) BHYVE_CAP_RTC_UTC \<or>
    clock_offset def = VIR_DOMAIN_CLOCK_OFFSET_VARIABLE \<or>
    clock_offset def = VIR_DOMAIN_CLOCK_OFFSET_TIMEZONE"
  then obtain msg where
    clock: "bhyveClockArgs driver def = Inl (VIR_ERR_CONFIG_UNSUPPORTED, msg)"
    by (auto simp: bhyveClockArgs_def)
  then show "\<exists>msg. bhyveClockArgs driver def = Inl (VIR_ERR_CONFIG_UNSUPPORTED, msg)"
    by blast
  show "\<exists>msg. virBhyveProcessBuildBhyveCmd L H driver def dryRun =
               (Inl (VIR_ERR_CONFIG_UNSUPPORTED, msg), def, [])"
  proof (cases "bhyveCPUArgs driver def")
    case (Inl e)
    with bhyveCPUArgs_error [OF Inl] show ?thesis by (auto simp: build_cpu_error)
  next
    case (Inr cpu)
    from build_clock_error [OF Inr clock] show ?thesis by blast
  qed
qed

theorem clock_offset_args_witness:
  "bhyveClockArgs full_driver example_def = Inr [] \<and>
   bhyveClockArgs full_driver (example_def\<lparr>clock_offset := VIR_DOMAIN_CLOCK_OFFSET_UTC\<rparr>) =
     Inr [''-u''] \<and>
   (\<exists>msg. virBhyveProcessBuildBhyveCmd example_library example_host bare_driver
             (example_def\<lparr>clock_offset := VIR_DOMAIN_CLOCK_OFFSET_UTC\<rparr>) True =
           (Inl (VIR_ERR_CONFIG_UNSUPPORTED, msg),
            example_def\<lparr>clock_offset := VIR_DOMAIN_CLOCK_OFFSET_UTC\<rparr>, [])) \<and>
   (\<exists>msg. virBhyveProcessBuildBhyveCmd example_library example_host full_driver
             (example_def\<lparr>clock_offset := VIR_DOMAIN_CLOCK_OFFSET_VARIABLE\<rparr>) True =
           (Inl (VIR_ERR_CONFIG_UNSUPPORTED, msg),
            example_def\<lparr>clock_offset := VIR_DOMAIN_CLOCK_OFFSET_VARIABLE\<rparr>, [])) \<and>
   fst (virBhyveProcessBuildBhyveCmd example_library example_host full_driver
          (example_def\<lparr>clock_offset := VIR_DOMAIN_CLOCK_OFFSET_UTC\<rparr>) True) =
     Inr \<lparr>cmd_binary = BHYVE,
          cmd_args =
            [''-c'', ''2'', ''-m'', ''256'', ''-u'', ''-H'', ''-P'', ''-s'', ''0:0,hostbridge'',
             ''-s'', ''1:0,virtio-net,tap0,mac=52:54:00:b9:94:02'',
             ''-s'', ''2:0,virtio-blk,/tmp/freebsd.img'', ''bhyve''],
          cmd_has_error = False\<rparr>"
proof -
  have run: "fst (virBhyveProcessBuildBhyveCmd example_library example_host full_driver
          (example_def\<lparr>clock_offset := VIR_DOMAIN_CLOCK_OFFSET_UTC\<rparr>) True) =
     Inr \<lparr>cmd_binary = BHYVE,
          cmd_args =
            [''-c'', ''2'', ''-m'', ''256'', ''-u'', ''-H'', ''-P'', ''-s'', ''0:0,hostbridge'',
             ''-s'', ''1:0,virtio-net,tap0,mac=52:54:00:b9:94:02'',
             ''-s'', ''2:0,virtio-blk,/tmp/freebsd.img'', ''bhyve''],
          cmd_has_error = False\<rparr>"
    by code_simp
  have caps: "has_cap (bhyvecaps full_driver) BHYVE_CAP_RTC_UTC"
             "\<not> has_cap (bhyvecaps bare_driver) BHYVE_CAP_RTC_UTC"
    by (simp_all add: full_driver_def bare_driver_def cap_defs)
  have local: "clock_offset example_def = VIR_DOMAIN_CLOCK_OFFSET_LOCALTIME"
    by (simp add: example_def_def)
  show ?thesis
    using clock_offset_args [of example_def full_driver example_library example_host True]
          clock_offset_args [of "example_def\<lparr>clock_offset := VIR_DOMAIN_CLOCK_OFFSET_UTC\<rparr>"
             full_driver example_library example_host True]
          clock_offset_args [of "example_def\<lparr>clock_offset := VIR_DOMAIN_CLOCK_OFFSET_UTC\<rparr>"
             bare_driver example_library example_host True]
          clock_offset_args [of "example_def\<lparr>clock_offset := VIR_DOMAIN_CLOCK_OFFSET_VARIABLE\<rparr>"
             full_driver example_library example_host True]
          run caps local
    by simp
qed

section \<open>Graphics\<close>

lemma update_graphics_same: "def_graphics d = gs \<Longrightarrow> d\<lparr>def_graphics := gs\<rparr> = d"
  by (cases d) auto

lemma head_frame:
  "bhyveBuildHead L H driver def dryRun = (r, def1, log1) \<Longrightarrow>
     def1\<lparr>def_nets := def_nets def, def_disks := def_disks def\<rparr> = def"
  by (auto simp: bhyveBuildHead_def split: sum.splits prod.splits)

text \<open>
  Claim C8.  Let the build reach the graphics formatter: the steps before it succeed
  and there is one graphics device and one video device.  If no firmware loader is
  configured, or an external bootloader is, or the capability for a boot ROM is missing,
  the build fails with \<open>VIR_ERR_CONFIG_UNSUPPORTED\<close> and the message about UEFI.  No
  command is returned, and the configuration and the record of host calls are those the
  earlier steps left: nothing is done after that point.
\<close>

theorem graphics_without_uefi_aborts:
  assumes "bhyveBuildHead L H driver def dryRun = (Inr head_args, def1, log1)"
    and "def_graphics def = [graphics]" and "def_videos def = [video]"
    and "os_loader def = None \<or> os_bootloader def \<noteq> None \<or>
         \<not> has_cap (bhyvecaps driver) BHYVE_CAP_LPC_BOOTROM"
  shows "virBhyveProcessBuildBhyveCmd L H driver def dryRun =
           (Inl (VIR_ERR_CONFIG_UNSUPPORTED,
                 ''Graphics are only supported when booting using UEFI''), def1, log1)"
proof -
  from head_frame [OF assms(1)] have
    def1: "def1\<lparr>def_nets := def_nets def, def_disks := def_disks def\<rparr> = def" .
  have g: "def_graphics def1 = [graphics]" "def_videos def1 = [video]"
    and os: "os_loader def1 = os_loader def" "os_bootloader def1 = os_bootloader def"
    using arg_cong [OF def1, of def_graphics] arg_cong [OF def1, of def_videos]
          arg_cong [OF def1, of os_loader] arg_cong [OF def1, of os_bootloader] assms(2,3)
    by simp_all
  from assms(4) os have
    "bhyveBuildGraphicsArgStr H driver def1 graphics video dryRun log1 =
       (Inl (VIR_ERR_CONFIG_UNSUPPORTED,
             ''Graphics are only supported when booting using UEFI''), graphics, log1)"
    by (auto simp: bhyveBuildGraphicsArgStr_def)
  with g have
    "bhyveBuildGraphics H driver def1 dryRun log1 =
       (Inl (VIR_ERR_CONFIG_UNSUPPORTED,
             ''Graphics are only supported when booting using UEFI''), def1, log1)"
    by (simp add: bhyveBuildGraphics_def update_graphics_same)
  with assms(1) show ?thesis
    by (simp add: virBhyveProcessBuildBhyveCmd_def)
qed

theorem graphics_without_uefi_aborts_witness:
  "virBhyveProcessBuildBhyveCmd example_library example_host full_driver
     (example_def\<lparr>def_graphics := [vnc_graphics], def_videos := [fbuf_video]\<rparr>) False =
   (Inl (VIR_ERR_CONFIG_UNSUPPORTED, ''Graphics are only supported when booting using UEFI''),
    example_def\<lparr>def_nets := [bridged_nic\<lparr>net_ifname := Some ''vnet0''\<rparr>],
                 def_graphics := [vnc_graphics], def_videos := [fbuf_video]\<rparr>,
    [TapCreateInBridgePort (Some ''virbr0'') ''vnet%d'', TapGetRealDeviceName ''vnet0'',
     NetDevSetOnline ''vnet0''])"
proof -
  have head: "bhyveBuildHead example_library example_host full_driver
     (example_def\<lparr>def_graphics := [vnc_graphics], def_videos := [fbuf_video]\<rparr>) False =
   (Inr [''-c'', ''2'', ''-m'', ''256'', ''-H'', ''-P'', ''-s'', ''0:0,hostbridge'',
         ''-s'', ''1:0,virtio-net,tap7,mac=52:54:00:b9:94:02'',
         ''-s'', ''2:0,virtio-blk,/tmp/freebsd.img''],
    example_def\<lparr>def_nets := [bridged_nic\<lparr>net_ifname := Some ''vnet0''\<rparr>],
                 def_graphics := [vnc_graphics], def_videos := [fbuf_video]\<rparr>,
    [TapCreateInBridgePort (Some ''virbr0'') ''vnet%d'', TapGetRealDeviceName ''vnet0'',
     NetDevSetOnline ''vnet0''])"
    by code_simp
  have cond: "os_loader (example_def\<lparr>def_graphics := [vnc_graphics], def_videos := [fbuf_video]\<rparr>) = None
      \<or> os_bootloader (example_def\<lparr>def_graphics := [vnc_graphics], def_videos := [fbuf_video]\<rparr>) \<noteq> None
      \<or> \<not> has_cap (bhyvecaps full_driver) BHYVE_CAP_LPC_BOOTROM"
    by (simp add: example_def_def)
  from graphics_without_uefi_aborts [OF head _ _ cond, of vnc_graphics fbuf_video]
  show ?thesis by simp
qed

lemma graphics_formatter_message:
  "fst (bhyveBuildGraphicsArgStr H driver def graphics video dryRun log) \<noteq>
     Inl (VIR_ERR_CONFIG_UNSUPPORTED, ''Multiple graphics devices are not supported'')"
  by (auto simp: bhyveBuildGraphicsArgStr_def vnc_tcp_def Let_def
           split: list.splits sum.splits prod.splits option.splits if_splits)

text \<open>The steps of the build do not read the graphics and video devices.\<close>

lemma controllers_def_inputs:
  "def_inputs def' = def_inputs def \<Longrightarrow>
   bhyveBuildControllers L driver def' cs counters disks =
   bhyveBuildControllers L driver def cs counters disks"
proof (induction cs arbitrary: counters disks)
  case Nil
  then show ?case by simp
next
  case (Cons c cs)
  have usb: "bhyveBuildUSBControllerArgStr def' c = bhyveBuildUSBControllerArgStr def c"
    using Cons.prems by (simp add: bhyveBuildUSBControllerArgStr_def)
  have "bhyveBuildControllerArgStr L driver def' c counters disks =
        bhyveBuildControllerArgStr L driver def c counters disks"
    unfolding bhyveBuildControllerArgStr_def usb ..
  with Cons show ?case by (simp split: prod.splits sum.splits)
qed

lemmas case_congs =
  sum.case_cong option.case_cong list.case_cong prod.case_cong if_cong
  virDomainClockOffsetType.case_cong

lemma stages_ignore_graphics:
  "bhyveCPUArgs driver (def\<lparr>def_graphics := gs, def_videos := vs\<rparr>) = bhyveCPUArgs driver def"
  "bhyveClockArgs driver (def\<lparr>def_graphics := gs, def_videos := vs\<rparr>) =
     bhyveClockArgs driver def"
  "bhyveBootromArgs driver (def\<lparr>def_graphics := gs, def_videos := vs\<rparr>) =
     bhyveBootromArgs driver def"
  "bhyveMemoryArgs (def\<lparr>def_graphics := gs, def_videos := vs\<rparr>) = bhyveMemoryArgs def"
  "bhyveOptionArgs (def\<lparr>def_graphics := gs, def_videos := vs\<rparr>) = bhyveOptionArgs def"
  "bhyveBuildConsoleArgStr (def\<lparr>def_graphics := gs, def_videos := vs\<rparr>) =
     bhyveBuildConsoleArgStr def"
  "bhyveBuildTail driver (def\<lparr>def_graphics := gs, def_videos := vs\<rparr>) =
     bhyveBuildTail driver def"
  by (simp_all add: bhyveCPUArgs_def bhyveClockArgs_def bhyveBootromArgs_def
        bhyveMemoryArgs_def bhyveOptionArgs_def bhyveBuildConsoleArgStr_def bhyveBuildTail_def
      cong: case_congs)

lemma head_ignores_graphics:
  "bhyveBuildHead L H driver (def\<lparr>def_graphics := gs, def_videos := vs\<rparr>) dryRun =
     (case bhyveBuildHead L H driver def dryRun of
        (r, def1, log1) \<Rightarrow> (r, def1\<lparr>def_graphics := gs, def_videos := vs\<rparr>, log1))"
  by (simp add: bhyveBuildHead_def stages_ignore_graphics
        controllers_def_inputs [of "def\<lparr>def_graphics := gs, def_videos := vs\<rparr>" def]
      split: sum.splits prod.splits)

text \<open>
  Claim C10.  When the configuration has no graphics device or no video device, the
  graphics step does nothing: no argument, no error, no change, whatever the other list
  holds, and the build gives the result it gives with both lists empty.  The step fails
  with \<^verbatim>\<open>Multiple graphics devices are not supported\<close> exactly when both lists are
  non-empty and one of them has more than one element.
\<close>

theorem graphics_needs_both_lists:
  "(def_graphics def = [] \<or> def_videos def = [] \<longrightarrow>
      bhyveBuildGraphics H driver def dryRun log = (Inr [], def, log) \<and>
      fst (virBhyveProcessBuildBhyveCmd L H driver def dryRun) =
        fst (virBhyveProcessBuildBhyveCmd L H driver
               (def\<lparr>def_graphics := [], def_videos := []\<rparr>) dryRun)) \<and>
   ((fst (bhyveBuildGraphics H driver def dryRun log) =
       Inl (VIR_ERR_CONFIG_UNSUPPORTED, ''Multiple graphics devices are not supported'')) =
    (def_graphics def \<noteq> [] \<and> def_videos def \<noteq> [] \<and>
     (length (def_graphics def) > 1 \<or> length (def_videos def) > 1)))"
proof (intro conjI impI)
  assume a: "def_graphics def = [] \<or> def_videos def = []"
  then show "bhyveBuildGraphics H driver def dryRun log = (Inr [], def, log)"
    by (auto simp: bhyveBuildGraphics_def split: list.splits)
  obtain r def1 log1 where h: "bhyveBuildHead L H driver def dryRun = (r, def1, log1)"
    by (cases "bhyveBuildHead L H driver def dryRun") auto
  from head_frame [OF h] have
    def1: "def1\<lparr>def_nets := def_nets def, def_disks := def_disks def\<rparr> = def" .
  from a arg_cong [OF def1, of def_graphics] arg_cong [OF def1, of def_videos]
  have a1: "def_graphics def1 = [] \<or> def_videos def1 = []" by simp
  then have g1: "\<And>l. bhyveBuildGraphics H driver def1 dryRun l = (Inr [], def1, l)"
    by (auto simp: bhyveBuildGraphics_def split: list.splits)
  have g2: "\<And>l. bhyveBuildGraphics H driver (def1\<lparr>def_graphics := [], def_videos := []\<rparr>)
                   dryRun l = (Inr [], def1\<lparr>def_graphics := [], def_videos := []\<rparr>, l)"
    by (simp add: bhyveBuildGraphics_def)
  show "fst (virBhyveProcessBuildBhyveCmd L H driver def dryRun) =
        fst (virBhyveProcessBuildBhyveCmd L H driver
               (def\<lparr>def_graphics := [], def_videos := []\<rparr>) dryRun)"
    by (simp add: virBhyveProcessBuildBhyveCmd_def head_ignores_graphics h g1 g2
          stages_ignore_graphics split: sum.splits)
next
  show "(fst (bhyveBuildGraphics H driver def dryRun log) =
       Inl (VIR_ERR_CONFIG_UNSUPPORTED, ''Multiple graphics devices are not supported'')) =
    (def_graphics def \<noteq> [] \<and> def_videos def \<noteq> [] \<and>
     (length (def_graphics def) > 1 \<or> length (def_videos def) > 1))"
  proof (cases "def_graphics def")
    case Nil
    then show ?thesis by (simp add: bhyveBuildGraphics_def)
  next
    case g: (Cons graphics gs)
    show ?thesis
    proof (cases "def_videos def")
      case Nil
      then show ?thesis using g by (simp add: bhyveBuildGraphics_def)
    next
      case v: (Cons video vs)
      show ?thesis
      proof (cases "gs = [] \<and> vs = []")
        case True
        then show ?thesis
          using g v graphics_formatter_message [of H driver def graphics video dryRun log]
          by (cases "bhyveBuildGraphicsArgStr H driver def graphics video dryRun log")
             (simp add: bhyveBuildGraphics_def)
      next
        case False
        then show ?thesis using g v by (auto simp: bhyveBuildGraphics_def)
      qed
    qed
  qed
qed

theorem graphics_needs_both_lists_witness:
  "bhyveBuildGraphics example_host full_driver (example_def\<lparr>def_graphics := [vnc_graphics]\<rparr>)
     False [] = (Inr [], example_def\<lparr>def_graphics := [vnc_graphics]\<rparr>, []) \<and>
   fst (virBhyveProcessBuildBhyveCmd example_library example_host full_driver
          (example_def\<lparr>def_videos := [fbuf_video]\<rparr>) False) =
   fst (virBhyveProcessBuildBhyveCmd example_library example_host full_driver
          (example_def\<lparr>def_graphics := [], def_videos := []\<rparr>) False) \<and>
   fst (bhyveBuildGraphics example_host full_driver
          (example_def\<lparr>def_graphics := [vnc_graphics, vnc_graphics],
                       def_videos := [fbuf_video]\<rparr>) False []) =
     Inl (VIR_ERR_CONFIG_UNSUPPORTED, ''Multiple graphics devices are not supported'')"
  using graphics_needs_both_lists [of "example_def\<lparr>def_graphics := [vnc_graphics]\<rparr>"
          example_host full_driver False "[]" example_library]
        graphics_needs_both_lists [of "example_def\<lparr>def_videos := [fbuf_video]\<rparr>"
          example_host full_driver False "[]" example_library]
        graphics_needs_both_lists [of
          "example_def\<lparr>def_graphics := [vnc_graphics, vnc_graphics],
                        def_videos := [fbuf_video]\<rparr>"
          example_host full_driver False "[]" example_library]
  by (simp add: example_def_def)

section \<open>Dry runs\<close>

lemma net_dry_run:
  "bhyveBuildNetArgStr H driver True net log =
     (case nic_model driver net of
        Inl e \<Rightarrow> (Inl e, net, log)
      | Inr model \<Rightarrow>
          if net_actualType net \<noteq> VIR_DOMAIN_NET_TYPE_BRIDGE then
            (Inl (VIR_ERR_CONFIG_UNSUPPORTED, ''Network type %d is not supported''),
             net\<lparr>net_ifname := None\<rparr>, log)
          else
            (Inr (net_arg net model ''tap0''),
             net\<lparr>net_ifname := Some (net_ifname_template H net)\<rparr>, log))"
  by (simp add: bhyveBuildNetArgStr_def Let_def cong: case_congs)

lemma net_dry_run_log: "snd (snd (bhyveBuildNetArgStr H driver True net log)) = log"
  by (simp add: net_dry_run split: sum.splits)


lemma nets_dry_run_log: "snd (snd (bhyveBuildNets H driver True nets log)) = log"
proof (induction nets arbitrary: log)
  case Nil
  then show ?case by simp
next
  case (Cons net rest)
  obtain r net' log' where n: "bhyveBuildNetArgStr H driver True net log = (r, net', log')"
    by (cases "bhyveBuildNetArgStr H driver True net log") auto
  with net_dry_run_log [of H driver net log] have "log' = log" by simp
  with n Cons [of log] show ?case
    by (cases r; cases "bhyveBuildNets H driver True rest log";
        cases "fst (bhyveBuildNets H driver True rest log)") auto
qed


lemma head_dry_run_log: "snd (snd (bhyveBuildHead L H driver def True)) = []"
proof -
  obtain r ns l where n: "bhyveBuildNets H driver True (def_nets def) [] = (r, ns, l)"
    by (cases "bhyveBuildNets H driver True (def_nets def) []") auto
  with nets_dry_run_log [of H driver "def_nets def" "[]"] have "l = []" by simp
  with n show ?thesis
    by (auto simp: bhyveBuildHead_def split: sum.splits prod.splits)
qed


lemma vnc_tcp_dry_run:
  "snd (vnc_tcp H graphics glisten True log) = (graphics, log)"
  "fst (vnc_tcp H1 graphics glisten True log1) = fst (vnc_tcp H2 graphics glisten True log2)"
  by (simp_all add: vnc_tcp_def)

lemma graphics_formatter_dry_run:
  "snd (bhyveBuildGraphicsArgStr H driver def graphics video True log) = (graphics, log)"
  by (auto simp: bhyveBuildGraphicsArgStr_def vnc_tcp_def Let_def
           split: list.splits prod.splits sum.splits if_splits)

lemma graphics_formatter_frame:
  assumes "os_loader def' = os_loader def" and "os_bootloader def' = os_bootloader def"
  shows "fst (bhyveBuildGraphicsArgStr H1 driver def' graphics video True log1) =
         fst (bhyveBuildGraphicsArgStr H2 driver def graphics video True log2)"
  using assms
  by (auto simp: bhyveBuildGraphicsArgStr_def vnc_tcp_def Let_def
           split: list.splits prod.splits sum.splits if_splits)

lemma graphics_dry_run_state:
  "snd (bhyveBuildGraphics H driver def True log) = (def, log)"
proof (cases "def_graphics def")
  case Nil
  then show ?thesis by (simp add: bhyveBuildGraphics_def)
next
  case g: (Cons graphics gs)
  show ?thesis
  proof (cases "def_videos def")
    case Nil
    then show ?thesis using g by (simp add: bhyveBuildGraphics_def)
  next
    case v: (Cons video vs)
    show ?thesis
      using g v graphics_formatter_dry_run [of H driver def graphics video log]
      by (cases "bhyveBuildGraphicsArgStr H driver def graphics video True log")
         (auto simp: bhyveBuildGraphics_def update_graphics_same)
  qed
qed

lemma graphics_dry_run_args:
  assumes "def_graphics def' = def_graphics def" and "def_videos def' = def_videos def"
    and "os_loader def' = os_loader def" and "os_bootloader def' = os_bootloader def"
  shows "fst (bhyveBuildGraphics H1 driver def' True log1) =
         fst (bhyveBuildGraphics H2 driver def True log2)"
proof (cases "def_graphics def")
  case Nil
  then show ?thesis using assms by (simp add: bhyveBuildGraphics_def)
next
  case g: (Cons graphics gs)
  show ?thesis
  proof (cases "def_videos def")
    case Nil
    then show ?thesis using g assms by (simp add: bhyveBuildGraphics_def)
  next
    case v: (Cons video vs)
    show ?thesis
      using g v assms(1,2) graphics_formatter_frame [OF assms(3,4), of H1 driver graphics video log1 H2 log2]
      by (cases "bhyveBuildGraphicsArgStr H1 driver def' graphics video True log1";
          cases "bhyveBuildGraphicsArgStr H2 driver def graphics video True log2")
         (auto simp: bhyveBuildGraphics_def)
  qed
qed

lemma tail_frame:
  assumes "def_sounds def' = def_sounds def" and "def_serials def' = def_serials def"
    and "def_namespaceData def' = def_namespaceData def" and "def_name def' = def_name def"
  shows "bhyveBuildTail driver def' = bhyveBuildTail driver def"
  using assms by (simp add: bhyveBuildTail_def bhyveBuildConsoleArgStr_def cong: case_congs)

lemma build_dry_run:
  shows build_dry_run_args: "fst (virBhyveProcessBuildBhyveCmd L H driver def True) =
     (case fst (bhyveBuildHead L H driver def True) of
        Inl e \<Rightarrow> Inl e
      | Inr head_args \<Rightarrow>
          (case fst (bhyveBuildGraphics H driver def True []) of
             Inl e \<Rightarrow> Inl e
           | Inr gfx \<Rightarrow>
               (case bhyveBuildTail driver def of
                  Inl e \<Rightarrow> Inl e
                | Inr tail_args \<Rightarrow>
                    Inr (virCommandAddArgs (virCommandNew BHYVE)
                           (head_args @ gfx @ tail_args)))))"
  and build_dry_run_log: "snd (snd (virBhyveProcessBuildBhyveCmd L H driver def True)) = []"
proof -
  obtain r def1 log1 where h: "bhyveBuildHead L H driver def True = (r, def1, log1)"
    by (cases "bhyveBuildHead L H driver def True") auto
  with head_dry_run_log [of L H driver def] have l: "log1 = []" by simp
  from head_frame [OF h] have
    def1: "def1\<lparr>def_nets := def_nets def, def_disks := def_disks def\<rparr> = def" .
  have f: "def_graphics def1 = def_graphics def" "def_videos def1 = def_videos def"
      "os_loader def1 = os_loader def" "os_bootloader def1 = os_bootloader def"
      "def_sounds def1 = def_sounds def" "def_serials def1 = def_serials def"
      "def_namespaceData def1 = def_namespaceData def" "def_name def1 = def_name def"
    using arg_cong [OF def1, of def_graphics] arg_cong [OF def1, of def_videos]
          arg_cong [OF def1, of os_loader] arg_cong [OF def1, of os_bootloader]
          arg_cong [OF def1, of def_sounds] arg_cong [OF def1, of def_serials]
          arg_cong [OF def1, of def_namespaceData] arg_cong [OF def1, of def_name]
    by simp_all
  obtain g where g: "bhyveBuildGraphics H driver def1 True [] = (g, def1, [])"
    using graphics_dry_run_state [of H driver def1 "[]"]
    by (cases "bhyveBuildGraphics H driver def1 True []") auto
  from graphics_dry_run_args [OF f(1-4), of H driver "[]" H "[]"] g
  have g': "fst (bhyveBuildGraphics H driver def True []) = g" by simp
  from tail_frame [OF f(5-8)] have t: "bhyveBuildTail driver def1 = bhyveBuildTail driver def" .
  show "fst (virBhyveProcessBuildBhyveCmd L H driver def True) =
     (case fst (bhyveBuildHead L H driver def True) of
        Inl e \<Rightarrow> Inl e
      | Inr head_args \<Rightarrow>
          (case fst (bhyveBuildGraphics H driver def True []) of
             Inl e \<Rightarrow> Inl e
           | Inr gfx \<Rightarrow>
               (case bhyveBuildTail driver def of
                  Inl e \<Rightarrow> Inl e
                | Inr tail_args \<Rightarrow>
                    Inr (virCommandAddArgs (virCommandNew BHYVE)
                           (head_args @ gfx @ tail_args)))))"
    using h l g g' t
    by (simp add: virBhyveProcessBuildBhyveCmd_def split: sum.splits)
  show "snd (snd (virBhyveProcessBuildBhyveCmd L H driver def True)) = []"
    using h l g
    by (simp add: virBhyveProcessBuildBhyveCmd_def split: sum.splits)
qed



section \<open>A SATA controller without disks\<close>

text \<open>
  The translation of the sources leaves the bus and the controller index of every disk,
  so a controller that has no disk still has none after the controllers before it.
\<close>

lemma ahci_disks_binding:
  "map disk_bus (snd (ahci_disks L driver controller disks)) = map disk_bus disks \<and>
   map disk_controller (snd (ahci_disks L driver controller disks)) = map disk_controller disks"
  by (induction disks)
     (auto simp: ahci_disks.simps(2) Let_def
           split: prod.splits sum.splits option.splits virDomainDiskDevice.splits)

lemma controller_binding:
  "map disk_bus (snd (snd (bhyveBuildControllerArgStr L driver def controller counters disks))) =
     map disk_bus disks \<and>
   map disk_controller
     (snd (snd (bhyveBuildControllerArgStr L driver def controller counters disks))) =
     map disk_controller disks"
  using ahci_disks_binding [of L driver controller disks]
  by (auto simp: bhyveBuildControllerArgStr_def bhyveBuildAHCIControllerArgStr_def
           split: prod.splits sum.splits virDomainControllerType.splits)

lemma binding_unbound:
  assumes "map disk_bus disks' = map disk_bus disks"
    and "map disk_controller disks' = map disk_controller disks"
    and "\<forall>disk\<in>set disks. \<not> ahci_bound controller disk"
  shows "\<forall>disk\<in>set disks'. \<not> ahci_bound controller disk"
proof
  fix disk assume "disk \<in> set disks'"
  then obtain i where i: "i < length disks'" "disks' ! i = disk"
    by (auto simp: in_set_conv_nth)
  from assms(1) have len: "length disks' = length disks"
    by (rule map_eq_imp_length_eq)
  from i len have "disk_bus disk = disk_bus (disks ! i)"
    "disk_controller disk = disk_controller (disks ! i)"
    using arg_cong [OF assms(1), of "\<lambda>xs. xs ! i"] arg_cong [OF assms(2), of "\<lambda>xs. xs ! i"]
    by simp_all
  moreover from i len assms(3) have "\<not> ahci_bound controller (disks ! i)" by simp
  ultimately show "\<not> ahci_bound controller disk" by (simp add: ahci_bound_def)
qed

lemma controller_without_disks_step:
  assumes "ctl_type controller = VIR_DOMAIN_CONTROLLER_TYPE_SATA"
    and "\<forall>disk\<in>set disks. \<not> ahci_bound controller disk"
  shows "bhyveBuildControllerArgStr L driver def controller counters disks =
           (Inr [''-s'', fmt_d (ctl_slot controller) @ '':0,ahci''], counters, disks)"
  using assms(1) ahci_disks_unbound [OF assms(2), of L driver]
  by (cases counters) (simp add: bhyveBuildAHCIControllerArgStr_def bhyveBuildControllerArgStr_def)

lemma controllers_without_disks:
  assumes "ctl_type controller = VIR_DOMAIN_CONTROLLER_TYPE_SATA"
  shows "\<forall>disk\<in>set disks. \<not> ahci_bound controller disk \<Longrightarrow>
    (case bhyveBuildControllers L driver def (pre @ post) counters disks of
       (Inl e, disks') \<Rightarrow>
         bhyveBuildControllers L driver def (pre @ controller # post) counters disks =
           (Inl e, disks')
     | (Inr args, disks') \<Rightarrow>
         (\<exists>before after. args = before @ after \<and>
            bhyveBuildControllers L driver def (pre @ controller # post) counters disks =
              (Inr (before @ [''-s'', fmt_d (ctl_slot controller) @ '':0,ahci''] @ after),
               disks')))"
proof (induction pre arbitrary: counters disks)
  case Nil
  from controller_without_disks_step [OF assms Nil, of L driver def counters]
  show ?case by (auto split: prod.splits sum.splits)
next
  case (Cons p pre)
  obtain r counters1 disks1 where
    p: "bhyveBuildControllerArgStr L driver def p counters disks = (r, counters1, disks1)"
    by (cases "bhyveBuildControllerArgStr L driver def p counters disks") auto
  show ?case
  proof (cases r)
    case (Inl e)
    with p show ?thesis by simp
  next
    case (Inr args)
    from controller_binding [of L driver def p counters disks] p
    have "map disk_bus disks1 = map disk_bus disks"
      "map disk_controller disks1 = map disk_controller disks" by simp_all
    from binding_unbound [OF this Cons.prems]
    have "\<forall>disk\<in>set disks1. \<not> ahci_bound controller disk" .
    note IH = Cons.IH [OF this, of counters1]
    obtain r2 disks2 where
      w: "bhyveBuildControllers L driver def (pre @ post) counters1 disks1 = (r2, disks2)"
      by (cases "bhyveBuildControllers L driver def (pre @ post) counters1 disks1") auto
    show ?thesis
    proof (cases r2)
      case e: (Inl e)
      with IH w p Inr show ?thesis by simp
    next
      case a: (Inr args2)
      with IH w obtain before after where ba: "args2 = before @ after"
        "bhyveBuildControllers L driver def (pre @ controller # post) counters1 disks1 =
           (Inr (before @ [''-s'', fmt_d (ctl_slot controller) @ '':0,ahci''] @ after), disks2)"
        by auto
      have "args @ args2 = (args @ before) @ after" using ba by simp
      moreover have
        "bhyveBuildControllers L driver def ((p # pre) @ controller # post) counters disks =
           (Inr ((args @ before) @ [''-s'', fmt_d (ctl_slot controller) @ '':0,ahci''] @ after),
            disks2)"
        using p Inr ba by simp
      ultimately show ?thesis using p Inr w a by (simp del: append_assoc) blast
    qed
  qed
qed

text \<open>The build, stage by stage, for a run of any kind.\<close>

lemma stages_ignore_controllers:
  "bhyveCPUArgs driver (def\<lparr>def_controllers := cs\<rparr>) = bhyveCPUArgs driver def"
  "bhyveClockArgs driver (def\<lparr>def_controllers := cs\<rparr>) = bhyveClockArgs driver def"
  "bhyveBootromArgs driver (def\<lparr>def_controllers := cs\<rparr>) = bhyveBootromArgs driver def"
  "bhyveMemoryArgs (def\<lparr>def_controllers := cs\<rparr>) = bhyveMemoryArgs def"
  "bhyveOptionArgs (def\<lparr>def_controllers := cs\<rparr>) = bhyveOptionArgs def"
  "bhyveBuildTail driver (def\<lparr>def_controllers := cs\<rparr>) = bhyveBuildTail driver def"
  by (simp_all add: bhyveCPUArgs_def bhyveClockArgs_def bhyveBootromArgs_def
        bhyveMemoryArgs_def bhyveOptionArgs_def bhyveBuildConsoleArgStr_def bhyveBuildTail_def
      cong: case_congs)

lemma graphics_formatter_reads_os:
  assumes "os_loader def' = os_loader def" and "os_bootloader def' = os_bootloader def"
  shows "bhyveBuildGraphicsArgStr H driver def' graphics video dryRun log =
         bhyveBuildGraphicsArgStr H driver def graphics video dryRun log"
  by (simp add: bhyveBuildGraphicsArgStr_def assms)

lemma graphics_stage_frame:
  assumes "def_graphics def' = def_graphics def" and "def_videos def' = def_videos def"
    and "os_loader def' = os_loader def" and "os_bootloader def' = os_bootloader def"
  shows "fst (bhyveBuildGraphics H driver def' dryRun log) =
         fst (bhyveBuildGraphics H driver def dryRun log)"
    and "snd (snd (bhyveBuildGraphics H driver def' dryRun log)) =
         snd (snd (bhyveBuildGraphics H driver def dryRun log))"
  by (simp_all add: bhyveBuildGraphics_def assms(1,2) graphics_formatter_reads_os [OF assms(3,4)]
           split: list.splits prod.splits)

lemma graphics_stage_state:
  "(fst (snd (bhyveBuildGraphics H driver def dryRun log)))\<lparr>def_graphics := def_graphics def\<rparr> =
     def"
  by (auto simp: bhyveBuildGraphics_def update_graphics_same split: list.splits prod.splits)

lemma build_by_stages:
  "fst (virBhyveProcessBuildBhyveCmd L H driver def dryRun) =
     (case fst (bhyveBuildHead L H driver def dryRun) of
        Inl e \<Rightarrow> Inl e
      | Inr head_args \<Rightarrow>
          (case fst (bhyveBuildGraphics H driver def dryRun
                       (snd (snd (bhyveBuildHead L H driver def dryRun)))) of
             Inl e \<Rightarrow> Inl e
           | Inr gfx \<Rightarrow>
               (case bhyveBuildTail driver def of
                  Inl e \<Rightarrow> Inl e
                | Inr tail_args \<Rightarrow>
                    Inr (virCommandAddArgs (virCommandNew BHYVE)
                           (head_args @ gfx @ tail_args)))))"
proof -
  obtain r def1 log1 where h: "bhyveBuildHead L H driver def dryRun = (r, def1, log1)"
    by (cases "bhyveBuildHead L H driver def dryRun") auto
  from head_frame [OF h] have
    def1: "def1\<lparr>def_nets := def_nets def, def_disks := def_disks def\<rparr> = def" .
  have f: "def_graphics def1 = def_graphics def" "def_videos def1 = def_videos def"
      "os_loader def1 = os_loader def" "os_bootloader def1 = os_bootloader def"
      "def_sounds def1 = def_sounds def" "def_serials def1 = def_serials def"
      "def_namespaceData def1 = def_namespaceData def" "def_name def1 = def_name def"
    using arg_cong [OF def1, of def_graphics] arg_cong [OF def1, of def_videos]
          arg_cong [OF def1, of os_loader] arg_cong [OF def1, of os_bootloader]
          arg_cong [OF def1, of def_sounds] arg_cong [OF def1, of def_serials]
          arg_cong [OF def1, of def_namespaceData] arg_cong [OF def1, of def_name]
    by simp_all
  obtain g def2 log2 where g: "bhyveBuildGraphics H driver def1 dryRun log1 = (g, def2, log2)"
    by (cases "bhyveBuildGraphics H driver def1 dryRun log1") auto
  from graphics_stage_frame(1) [OF f(1-4), where H = H and driver = driver and dryRun = dryRun and log = log1] g
  have g': "fst (bhyveBuildGraphics H driver def dryRun log1) = g" by simp
  from graphics_stage_state [where H = H and driver = driver and def = def1 and dryRun = dryRun and log = log1] g
  have def2: "def2\<lparr>def_graphics := def_graphics def1\<rparr> = def1" by simp
  have "def_sounds def2 = def_sounds def" "def_serials def2 = def_serials def"
      "def_namespaceData def2 = def_namespaceData def" "def_name def2 = def_name def"
    using arg_cong [OF def2, of def_sounds] arg_cong [OF def2, of def_serials]
          arg_cong [OF def2, of def_namespaceData] arg_cong [OF def2, of def_name] f(5-8)
    by simp_all
  from tail_frame [OF this] have t: "bhyveBuildTail driver def2 = bhyveBuildTail driver def" .
  show ?thesis
    using h g g' t
    by (simp add: virBhyveProcessBuildBhyveCmd_def split: sum.splits)
qed

lemma insert_in_head:
  "\<exists>before after.
     x1 @ x2 @ x3 @ x4 @ x5 @ x6 @ (b @ a) @ y1 @ y2 = before @ after \<and>
     x1 @ x2 @ x3 @ x4 @ x5 @ x6 @ (b @ entry @ a) @ y1 @ y2 = before @ entry @ after"
  by (rule exI [of _ "x1 @ x2 @ x3 @ x4 @ x5 @ x6 @ b"], rule exI [of _ "a @ y1 @ y2"]) simp

lemma head_without_controller:
  assumes "ctl_type controller = VIR_DOMAIN_CONTROLLER_TYPE_SATA"
    and "\<forall>disk\<in>set (def_disks def). \<not> ahci_bound controller disk"
    and "def_controllers def = pre @ controller # post"
  shows "snd (snd (bhyveBuildHead L H driver (def\<lparr>def_controllers := pre @ post\<rparr>) dryRun)) =
         snd (snd (bhyveBuildHead L H driver def dryRun))"
    and "case fst (bhyveBuildHead L H driver (def\<lparr>def_controllers := pre @ post\<rparr>) dryRun) of
           Inl e \<Rightarrow> fst (bhyveBuildHead L H driver def dryRun) = Inl e
         | Inr args \<Rightarrow>
             (\<exists>before after. args = before @ after \<and>
                fst (bhyveBuildHead L H driver def dryRun) =
                  Inr (before @ [''-s'', fmt_d (ctl_slot controller) @ '':0,ahci''] @ after))"
proof -
  let ?def' = "def\<lparr>def_controllers := pre @ post\<rparr>"
  let ?entry = "[''-s'', fmt_d (ctl_slot controller) @ '':0,ahci'']"
  have lp: "bhyveBuildControllers L driver ?def' (pre @ post) (0, 0) (def_disks def) =
            bhyveBuildControllers L driver def (pre @ post) (0, 0) (def_disks def)"
    by (rule controllers_def_inputs) simp
  obtain r disks1 where
    w: "bhyveBuildControllers L driver def (pre @ post) (0, 0) (def_disks def) = (r, disks1)"
    by (cases "bhyveBuildControllers L driver def (pre @ post) (0, 0) (def_disks def)") auto
  note rel = controllers_without_disks [OF assms(1,2), of L driver def pre post "(0, 0)"]
  show "snd (snd (bhyveBuildHead L H driver ?def' dryRun)) =
        snd (snd (bhyveBuildHead L H driver def dryRun))"
    using rel w
    by (cases r)
       (auto simp: bhyveBuildHead_def stages_ignore_controllers lp assms(3)
             split: sum.splits prod.splits)
  show "case fst (bhyveBuildHead L H driver ?def' dryRun) of
           Inl e \<Rightarrow> fst (bhyveBuildHead L H driver def dryRun) = Inl e
         | Inr args \<Rightarrow>
             (\<exists>before after. args = before @ after \<and>
                fst (bhyveBuildHead L H driver def dryRun) = Inr (before @ ?entry @ after))"
  proof (cases r)
    case (Inl e)
    with rel w show ?thesis
      by (auto simp: bhyveBuildHead_def stages_ignore_controllers lp assms(3)
               split: sum.splits prod.splits)
  next
    case (Inr args)
    with rel w obtain b a where ba: "args = b @ a"
      "bhyveBuildControllers L driver def (pre @ controller # post) (0, 0) (def_disks def) =
         (Inr (b @ ?entry @ a), disks1)"
      by auto
    show ?thesis
      using w Inr ba insert_in_head [of _ _ _ _ _ _ b a _ _ ?entry]
      by (simp add: bhyveBuildHead_def stages_ignore_controllers lp assms(3)
               split: sum.splits prod.splits del: append_assoc)
  qed
qed

text \<open>
  Claim C9.  A SATA controller to which no disk is bound (no disk is on the SATA bus with
  the index of the controller) is not refused and not left out.  The formatter, and the
  controller dispatch that calls it, return the one entry \<^verbatim>\<open>-s <slot>:0,ahci\<close> with
  nothing after \<^verbatim>\<open>ahci\<close>, and leave the disks as they were.  And the assembler, given
  a configuration with such a controller among its controllers, does what it does for the
  configuration without that controller, with this one difference: where it fails
  without the controller it fails with the same error, and where it returns a command
  without the controller it returns the same command with the entry of the controller
  put in.
\<close>

theorem ahci_controller_without_disks:
  assumes "\<forall>disk\<in>set disks.
      \<not> (disk_bus disk = VIR_DOMAIN_DISK_BUS_SATA \<and> disk_controller disk = ctl_idx controller)"
  shows "bhyveBuildAHCIControllerArgStr L driver controller disks =
     (Inr [''-s'', fmt_d (ctl_slot controller) @ '':0,ahci''], disks) \<and>
   (ctl_type controller = VIR_DOMAIN_CONTROLLER_TYPE_SATA \<longrightarrow>
      bhyveBuildControllerArgStr L driver def controller counters disks =
        (Inr [''-s'', fmt_d (ctl_slot controller) @ '':0,ahci''], counters, disks)) \<and>
   (ctl_type controller = VIR_DOMAIN_CONTROLLER_TYPE_SATA \<and> def_disks def = disks \<and>
    def_controllers def = pre @ controller # post \<longrightarrow>
      (\<forall>e. fst (virBhyveProcessBuildBhyveCmd L H driver
                   (def\<lparr>def_controllers := pre @ post\<rparr>) dryRun) = Inl e \<longrightarrow>
           fst (virBhyveProcessBuildBhyveCmd L H driver def dryRun) = Inl e) \<and>
      (\<forall>cmd. fst (virBhyveProcessBuildBhyveCmd L H driver
                     (def\<lparr>def_controllers := pre @ post\<rparr>) dryRun) = Inr cmd \<longrightarrow>
             (\<exists>before after.
                cmd_args cmd = before @ after \<and>
                fst (virBhyveProcessBuildBhyveCmd L H driver def dryRun) =
                  Inr (cmd\<lparr>cmd_args :=
                         before @ [''-s'', fmt_d (ctl_slot controller) @ '':0,ahci''] @
                         after\<rparr>))))"
proof (intro conjI impI allI)
  from assms have unbound: "\<forall>disk\<in>set disks. \<not> ahci_bound controller disk"
    by (simp add: ahci_bound_def)
  then have loop: "ahci_disks L driver controller disks = (Inr [], disks)"
    by (rule ahci_disks_unbound)
  then show "bhyveBuildAHCIControllerArgStr L driver controller disks =
     (Inr [''-s'', fmt_d (ctl_slot controller) @ '':0,ahci''], disks)"
    by (simp add: bhyveBuildAHCIControllerArgStr_def)
  {
    assume "ctl_type controller = VIR_DOMAIN_CONTROLLER_TYPE_SATA"
    with loop show "bhyveBuildControllerArgStr L driver def controller counters disks =
        (Inr [''-s'', fmt_d (ctl_slot controller) @ '':0,ahci''], counters, disks)"
      by (cases counters)
         (simp add: bhyveBuildAHCIControllerArgStr_def bhyveBuildControllerArgStr_def)
  }
  let ?def' = "def\<lparr>def_controllers := pre @ post\<rparr>"
  let ?entry = "[''-s'', fmt_d (ctl_slot controller) @ '':0,ahci'']"
  assume a: "ctl_type controller = VIR_DOMAIN_CONTROLLER_TYPE_SATA \<and> def_disks def = disks \<and>
    def_controllers def = pre @ controller # post"
  with unbound have u: "\<forall>disk\<in>set (def_disks def). \<not> ahci_bound controller disk" by simp
  from a have sata: "ctl_type controller = VIR_DOMAIN_CONTROLLER_TYPE_SATA"
    and cs: "def_controllers def = pre @ controller # post" by simp_all
  note log = head_without_controller(1) [OF sata u cs, of L H driver dryRun]
  note head = head_without_controller(2) [OF sata u cs, of L H driver dryRun]
  have gfx: "fst (bhyveBuildGraphics H driver ?def' dryRun
                    (snd (snd (bhyveBuildHead L H driver ?def' dryRun)))) =
             fst (bhyveBuildGraphics H driver def dryRun
                    (snd (snd (bhyveBuildHead L H driver def dryRun))))"
    unfolding log by (rule graphics_stage_frame(1)) simp_all
  note tail = stages_ignore_controllers(6) [where driver = driver and def = def and cs = "pre @ post"]
  {
    fix e
    assume "fst (virBhyveProcessBuildBhyveCmd L H driver ?def' dryRun) = Inl e"
    with head gfx tail
    show "fst (virBhyveProcessBuildBhyveCmd L H driver def dryRun) = Inl e"
      by (auto simp: build_by_stages split: sum.splits)
  }
  fix cmd
  assume c: "fst (virBhyveProcessBuildBhyveCmd L H driver ?def' dryRun) = Inr cmd"
  then obtain args' g t where
    s: "fst (bhyveBuildHead L H driver ?def' dryRun) = Inr args'"
       "fst (bhyveBuildGraphics H driver def dryRun
              (snd (snd (bhyveBuildHead L H driver def dryRun)))) = Inr g"
       "bhyveBuildTail driver def = Inr t"
       "cmd = \<lparr>cmd_binary = BHYVE, cmd_args = args' @ g @ t, cmd_has_error = False\<rparr>"
    by (auto simp: build_by_stages [of L H driver ?def'] gfx tail virCommandAddArgs_New
             split: sum.splits)
  with head obtain b a where ba: "args' = b @ a"
    "fst (bhyveBuildHead L H driver def dryRun) = Inr (b @ ?entry @ a)"
    by auto
  have "cmd_args cmd = b @ (a @ g @ t)" using s(4) ba(1) by simp
  moreover have "fst (virBhyveProcessBuildBhyveCmd L H driver def dryRun) =
      Inr (cmd\<lparr>cmd_args := b @ ?entry @ (a @ g @ t)\<rparr>)"
    using s ba(2) by (simp add: build_by_stages [of L H driver def] virCommandAddArgs_New)
  ultimately show "\<exists>before after.
          cmd_args cmd = before @ after \<and>
          fst (virBhyveProcessBuildBhyveCmd L H driver def dryRun) =
            Inr (cmd\<lparr>cmd_args := before @ ?entry @ after\<rparr>)"
    by blast
qed

theorem ahci_controller_without_disks_witness:
  "bhyveBuildAHCIControllerArgStr example_library full_driver sata_controller
     (def_disks example_def) = (Inr [''-s'', ''2:0,ahci''], def_disks example_def) \<and>
   bhyveBuildControllerArgStr example_library full_driver example_def sata_controller (0, 0)
     (def_disks example_def) = (Inr [''-s'', ''2:0,ahci''], (0, 0), def_disks example_def) \<and>
   (\<exists>before after.
      [''-c'', ''2'', ''-m'', ''256'', ''-H'', ''-P'', ''-s'', ''0:0,hostbridge'',
       ''-s'', ''1:0,virtio-net,tap7,mac=52:54:00:b9:94:02'',
       ''-s'', ''2:0,virtio-blk,/tmp/freebsd.img'', ''bhyve''] = before @ after \<and>
      fst (virBhyveProcessBuildBhyveCmd example_library example_host full_driver
             (example_def\<lparr>def_controllers := [sata_controller]\<rparr>) False) =
        Inr \<lparr>cmd_binary = BHYVE,
             cmd_args = before @ [''-s'', ''2:0,ahci''] @ after,
             cmd_has_error = False\<rparr>) \<and>
   fst (virBhyveProcessBuildBhyveCmd example_library example_host full_driver
          (example_def\<lparr>def_controllers := [sata_controller]\<rparr>) False) =
     Inr \<lparr>cmd_binary = BHYVE,
          cmd_args =
            [''-c'', ''2'', ''-m'', ''256'', ''-H'', ''-P'', ''-s'', ''0:0,hostbridge'',
             ''-s'', ''2:0,ahci'',
             ''-s'', ''1:0,virtio-net,tap7,mac=52:54:00:b9:94:02'',
             ''-s'', ''2:0,virtio-blk,/tmp/freebsd.img'', ''bhyve''],
          cmd_has_error = False\<rparr>"
proof -
  have without: "fst (virBhyveProcessBuildBhyveCmd example_library example_host full_driver
          (example_def\<lparr>def_controllers := [sata_controller],
                        def_controllers := [] @ []\<rparr>) False) =
     Inr \<lparr>cmd_binary = BHYVE,
          cmd_args =
            [''-c'', ''2'', ''-m'', ''256'', ''-H'', ''-P'', ''-s'', ''0:0,hostbridge'',
             ''-s'', ''1:0,virtio-net,tap7,mac=52:54:00:b9:94:02'',
             ''-s'', ''2:0,virtio-blk,/tmp/freebsd.img'', ''bhyve''],
          cmd_has_error = False\<rparr>"
    by code_simp
  have direct: "fst (virBhyveProcessBuildBhyveCmd example_library example_host full_driver
          (example_def\<lparr>def_controllers := [sata_controller]\<rparr>) False) =
     Inr \<lparr>cmd_binary = BHYVE,
          cmd_args =
            [''-c'', ''2'', ''-m'', ''256'', ''-H'', ''-P'', ''-s'', ''0:0,hostbridge'',
             ''-s'', ''2:0,ahci'',
             ''-s'', ''1:0,virtio-net,tap7,mac=52:54:00:b9:94:02'',
             ''-s'', ''2:0,virtio-blk,/tmp/freebsd.img'', ''bhyve''],
          cmd_has_error = False\<rparr>"
    by code_simp
  have unbound: "\<forall>disk\<in>set (def_disks example_def).
      \<not> (disk_bus disk = VIR_DOMAIN_DISK_BUS_SATA \<and>
         disk_controller disk = ctl_idx sata_controller)"
    by (simp add: example_defs)
  have slot: "fmt_d (ctl_slot sata_controller) = ''2''"
    by (simp add: example_defs fmt_defs)
  have here: "ctl_type sata_controller = VIR_DOMAIN_CONTROLLER_TYPE_SATA \<and>
      def_disks (example_def\<lparr>def_controllers := [sata_controller]\<rparr>) = def_disks example_def \<and>
      def_controllers (example_def\<lparr>def_controllers := [sata_controller]\<rparr>) =
        [] @ sata_controller # []"
    by (simp add: example_defs)
  from ahci_controller_without_disks [OF unbound, where L = example_library
         and driver = full_driver
         and def = "example_def\<lparr>def_controllers := [sata_controller]\<rparr>"
         and counters = "(0, 0)" and pre = "[]" and post = "[]" and H = example_host
         and dryRun = False]
       here without slot
  have "\<exists>before after.
      [''-c'', ''2'', ''-m'', ''256'', ''-H'', ''-P'', ''-s'', ''0:0,hostbridge'',
       ''-s'', ''1:0,virtio-net,tap7,mac=52:54:00:b9:94:02'',
       ''-s'', ''2:0,virtio-blk,/tmp/freebsd.img'', ''bhyve''] = before @ after \<and>
      fst (virBhyveProcessBuildBhyveCmd example_library example_host full_driver
             (example_def\<lparr>def_controllers := [sata_controller]\<rparr>) False) =
        Inr \<lparr>cmd_binary = BHYVE,
             cmd_args = before @ [''-s'', ''2:0,ahci''] @ after,
             cmd_has_error = False\<rparr>"
    by simp
  moreover
  from ahci_controller_without_disks [OF unbound, where L = example_library
         and driver = full_driver and def = example_def and counters = "(0, 0)"] slot
  have "bhyveBuildAHCIControllerArgStr example_library full_driver sata_controller
     (def_disks example_def) = (Inr [''-s'', ''2:0,ahci''], def_disks example_def) \<and>
   bhyveBuildControllerArgStr example_library full_driver example_def sata_controller (0, 0)
     (def_disks example_def) = (Inr [''-s'', ''2:0,ahci''], (0, 0), def_disks example_def)"
    by (simp add: example_defs)
  ultimately show ?thesis using direct by blast
qed

section \<open>The loader\<close>

text \<open>
  Claim C6, as amended.  Let an argument string for the bootloader be configured.  With a
  bootloader path configured too, the loader command is that path with the tokens of
  the string, cut at the delimiter \<^verbatim>\<open>" "\<close>, as its arguments, and no disk is looked at:
  the disks are returned untouched.  With no bootloader path, the boot disk is searched
  first; if the search fails, so does the function, and if it finds a disk, the command
  is \<^verbatim>\<open>bhyveload\<close> with the tokens as its arguments.
\<close>

theorem explicit_bootloader_args:
  assumes "os_bootloaderArgs def = Some args"
  shows "(\<forall>bootloader. os_bootloader def = Some bootloader \<longrightarrow>
            virBhyveProcessBuildLoadCmd L driver def devmap_file want_map =
              (Inr \<lparr>cmd_binary = Path bootloader, cmd_args = virStringSplit L args '' '',
                    cmd_has_error = False\<rparr>,
               None, def_disks def)) \<and>
         (os_bootloader def = None \<longrightarrow>
            (\<forall>i disk disks'. virBhyveGetBootDisk L def = (Inr (i, disk), disks') \<longrightarrow>
               virBhyveProcessBuildLoadCmd L driver def devmap_file want_map =
                 (Inr \<lparr>cmd_binary = BHYVELOAD, cmd_args = virStringSplit L args '' '',
                       cmd_has_error = False\<rparr>,
                  None, disks')) \<and>
            (\<forall>e disks'. virBhyveGetBootDisk L def = (Inl e, disks') \<longrightarrow>
               virBhyveProcessBuildLoadCmd L driver def devmap_file want_map =
                 (Inl e, None, disks')))"
  using assms
  by (simp add: virBhyveProcessBuildLoadCmd_def virBhyveProcessBuildGrubbhyveCmd_def
        virBhyveProcessBuildCustomLoaderCmd_def virBhyveProcessBuildBhyveloadCmd_def
        virAppendBootloaderArgs_def virCommandAddArgs_New)

theorem explicit_bootloader_args_witness:
  "virBhyveProcessBuildLoadCmd example_library full_driver
     (example_def\<lparr>os_bootloader := Some ''/usr/local/sbin/grub-bhyve'',
                  os_bootloaderArgs := Some ''-r cd -m /tmp/map vm''\<rparr>)
     ''/tmp/device.map'' True =
   (Inr \<lparr>cmd_binary = Path ''/usr/local/sbin/grub-bhyve'',
         cmd_args = [''-r'', ''cd'', ''-m'', ''/tmp/map'', ''vm''], cmd_has_error = False\<rparr>,
    None, def_disks example_def) \<and>
   virBhyveProcessBuildLoadCmd example_library full_driver
     (example_def\<lparr>os_bootloaderArgs := Some ''-m 256 -d /x vm''\<rparr>)
     ''/tmp/device.map'' True =
   (Inr \<lparr>cmd_binary = BHYVELOAD,
         cmd_args = [''-m'', ''256'', ''-d'', ''/x'', ''vm''], cmd_has_error = False\<rparr>,
    None, def_disks example_def)"
proof -
  have boot: "virBhyveGetBootDisk example_library
          (example_def\<lparr>os_bootloaderArgs := Some ''-m 256 -d /x vm''\<rparr>) =
        (Inr (0, hd (def_disks example_def)), def_disks example_def)"
    by (simp add: virBhyveGetBootDisk_def boot_dev_def virBhyveUsableDisk_def example_defs)
  have split: "virStringSplit example_library ''-r cd -m /tmp/map vm'' '' '' =
          [''-r'', ''cd'', ''-m'', ''/tmp/map'', ''vm'']"
      "virStringSplit example_library ''-m 256 -d /x vm'' '' '' =
          [''-m'', ''256'', ''-d'', ''/x'', ''vm'']"
    by (simp_all add: example_library_def)
  show ?thesis
    using explicit_bootloader_args [of
            "example_def\<lparr>os_bootloader := Some ''/usr/local/sbin/grub-bhyve'',
                         os_bootloaderArgs := Some ''-r cd -m /tmp/map vm''\<rparr>"
            "''-r cd -m /tmp/map vm''" example_library full_driver "''/tmp/device.map''" True]
          explicit_bootloader_args [of
            "example_def\<lparr>os_bootloaderArgs := Some ''-m 256 -d /x vm''\<rparr>"
            "''-m 256 -d /x vm''" example_library full_driver "''/tmp/device.map''" True]
          boot split
    by (simp add: example_def_def)
qed

text \<open>
  The claim as it was stated fails where no bootloader path is configured: the boot disk
  is searched although the argument string is set, and for a configuration without
  disks the search fails and no command is built.
\<close>

theorem bootloader_args_without_path_counterexample:
  "os_bootloaderArgs (example_def\<lparr>os_bootloaderArgs := Some ''-m 256 -d /x vm'', def_disks := []\<rparr>) =
     Some ''-m 256 -d /x vm'' \<and>
   virBhyveProcessBuildLoadCmd example_library full_driver
     (example_def\<lparr>os_bootloaderArgs := Some ''-m 256 -d /x vm'', def_disks := []\<rparr>)
     ''/tmp/device.map'' True =
   (Inl (VIR_ERR_CONFIG_UNSUPPORTED, ''Domain should have at least one disk defined''),
    None, [])"
  by (simp add: virBhyveProcessBuildLoadCmd_def virBhyveGetBootDisk_def example_def_def)

text \<open>
  What the search does when no boot order is given and no usable disk has a boot index:
  it returns the last usable disk.
\<close>

lemma boot_index_scan_unmarked:
  "\<forall>(k, d) \<in> set (usable_disks L i disks). disk_bootIndex d = 0 \<Longrightarrow>
   \<exists>err'. fst (boot_index_scan L i (None, first_usable, err) disks) =
     Inr (None,
          (if usable_disks L i disks = [] then first_usable
           else Some (last (usable_disks L i disks))),
          err')"
proof (induction disks arbitrary: i first_usable err)
  case Nil
  then show ?case by simp
next
  case (Cons disk rest)
  obtain u disk' where u: "virBhyveUsableDisk L disk = (u, disk')"
    by (cases "virBhyveUsableDisk L disk") auto
  show ?case
  proof (cases u)
    case (Some e)
    with u Cons.prems have
      "\<forall>(k, d) \<in> set (usable_disks L (Suc i) rest). disk_bootIndex d = 0" by simp
    from Cons.IH [OF this, of first_usable e] u Some show ?thesis
      by (auto split: prod.splits)
  next
    case None
    with u Cons.prems have zero: "disk_bootIndex disk' = 0"
      and rest: "\<forall>(k, d) \<in> set (usable_disks L (Suc i) rest). disk_bootIndex d = 0"
      by simp_all
    from Cons.IH [OF rest, of "Some (i, disk')" err] u None zero show ?thesis
      by (auto split: prod.splits)
  qed
qed

lemma boot_disk_unmarked:
  assumes "os_bootDevs def = []"
    and "\<forall>(k, d) \<in> set (usable_disks L 0 (def_disks def)). disk_bootIndex d = 0"
    and "usable_disks L 0 (def_disks def) \<noteq> []"
  shows "fst (virBhyveGetBootDisk L def) = Inr (last (usable_disks L 0 (def_disks def)))"
proof -
  from assms(3) have ne: "def_disks def \<noteq> []" by auto
  from boot_index_scan_unmarked [OF assms(2), of None "(VIR_ERR_OK, [])"] assms(3)
  obtain err' where
    "fst (boot_index_scan L 0 (None, None, (VIR_ERR_OK, [])) (def_disks def)) =
       Inr (None, Some (last (usable_disks L 0 (def_disks def))), err')"
    by auto
  with ne assms(1) show ?thesis
    by (cases "boot_index_scan L 0 (None, None, (VIR_ERR_OK, [])) (def_disks def)")
       (simp add: virBhyveGetBootDisk_def boot_dev_def)
qed

text \<open>
  Claim C1 says that, with no boot index on any usable disk and no boot order, the boot
  disk is the first usable disk.  The loop of lines 986-1001 assigns
  \<^verbatim>\<open>first_usable_disk_index\<close> for every usable disk, not for the first only, so the
  function returns the last one: of the two usable disks below, neither with a boot
  index, the one at index 1.
\<close>

theorem boot_disk_is_last_usable:
  "fst (virBhyveUsableDisk example_library
          (file_disk VIR_DOMAIN_DISK_BUS_VIRTIO VIR_DOMAIN_DISK_DEVICE_DISK ''/a.img'')) = None \<and>
   fst (virBhyveUsableDisk example_library
          (file_disk VIR_DOMAIN_DISK_BUS_VIRTIO VIR_DOMAIN_DISK_DEVICE_DISK ''/b.img'')) = None \<and>
   disk_bootIndex
     (file_disk VIR_DOMAIN_DISK_BUS_VIRTIO VIR_DOMAIN_DISK_DEVICE_DISK ''/a.img'') = 0 \<and>
   disk_bootIndex
     (file_disk VIR_DOMAIN_DISK_BUS_VIRTIO VIR_DOMAIN_DISK_DEVICE_DISK ''/b.img'') = 0 \<and>
   os_bootDevs example_def = [] \<and>
   fst (virBhyveGetBootDisk example_library
          (example_def\<lparr>def_disks :=
             [file_disk VIR_DOMAIN_DISK_BUS_VIRTIO VIR_DOMAIN_DISK_DEVICE_DISK ''/a.img'',
              file_disk VIR_DOMAIN_DISK_BUS_VIRTIO VIR_DOMAIN_DISK_DEVICE_DISK ''/b.img'']\<rparr>)) =
     Inr (1, file_disk VIR_DOMAIN_DISK_BUS_VIRTIO VIR_DOMAIN_DISK_DEVICE_DISK ''/b.img'')"
  by (simp add: virBhyveGetBootDisk_def boot_dev_def virBhyveUsableDisk_def example_defs)

end
